theory Spec2Isabelle
  imports Main
begin

section \<open>Python values used by set-asus-battery.py\<close>

subsection \<open>Exceptions\<close>

text \<open>
  The exception classes that the library calls of the script raise and that its
  \<^verbatim>\<open>except\<close> clauses name. \<^verbatim>\<open>IOError\<close> is an alias of \<^verbatim>\<open>OSError\<close> in Python 3.
  Every class here derives from \<^verbatim>\<open>Exception\<close>; \<^verbatim>\<open>KeyboardInterrupt\<close> and
  \<^verbatim>\<open>SystemExit\<close>, which no call of the script raises by itself, are outside the model.
\<close>

datatype exc_class =
    Exception
  | ValueError
  | UnicodeDecodeError
  | OSError
  | FileNotFoundError
  | PermissionError
  | CalledProcessError

fun issubclass :: "exc_class \<Rightarrow> exc_class \<Rightarrow> bool" where
  "issubclass c Exception = True"
| "issubclass UnicodeDecodeError ValueError = True"
| "issubclass FileNotFoundError OSError = True"
| "issubclass PermissionError OSError = True"
| "issubclass c d = (c = d)"

text \<open>
  An exception object: its class, \<^verbatim>\<open>str(e)\<close>, and the \<^verbatim>\<open>stderr\<close> attribute that
  \<^verbatim>\<open>subprocess.CalledProcessError\<close> carries (\<open>None\<close> for the other classes).
\<close>

record py_exception =
  cls :: exc_class
  str_e :: string
  stderr :: "string option"

subsection \<open>Strings\<close>

text \<open>
  The texts that the program writes or reads from the system (paths, messages, the
  content of the control file, the standard error of the command) are modelled as a
  \<open>string\<close> whose characters are the code points U+0000 to U+00FF.
  \<open>Py_UNICODE_ISSPACE\<close> is the whitespace test of \<^verbatim>\<open>str.strip()\<close> and
  \<^verbatim>\<open>str.isspace()\<close> on that range; \<open>Py_ISSPACE\<close> is the ASCII test that the integer
  parser uses.
\<close>

definition Py_ISSPACE :: "char \<Rightarrow> bool" where
  "Py_ISSPACE c = ((9::nat) \<le> of_char c \<and> of_char c \<le> (13::nat) \<or> of_char c = (32::nat))"

definition Py_UNICODE_ISSPACE :: "char \<Rightarrow> bool" where
  "Py_UNICODE_ISSPACE c =
     ((9::nat) \<le> of_char c \<and> of_char c \<le> (13::nat)
      \<or> (28::nat) \<le> of_char c \<and> of_char c \<le> (32::nat)
      \<or> of_char c = (133::nat) \<or> of_char c = (160::nat))"

definition strip :: "string \<Rightarrow> string" where
  "strip s = rev (dropWhile Py_UNICODE_ISSPACE (rev (dropWhile Py_UNICODE_ISSPACE s)))"

text \<open>
  The text of the entry is whatever the user types, so any Unicode text: it is modelled
  as the list of its code points. \<open>codes\<close> gives the code points of a text written
  here as a \<open>string\<close>, and \<open>unicode_isspace\<close> is \<^verbatim>\<open>Py_UNICODE_ISSPACE\<close> on all code
  points (the whitespace of Unicode, the same since its version 6.3).
\<close>

definition codes :: "string \<Rightarrow> nat list" where
  "codes t = map of_char t"

definition unicode_isspace :: "nat \<Rightarrow> bool" where
  "unicode_isspace c =
     (9 \<le> c \<and> c \<le> 13 \<or> 28 \<le> c \<and> c \<le> 32 \<or> c = 0x85 \<or> c = 0xA0 \<or> c = 0x1680
      \<or> 0x2000 \<le> c \<and> c \<le> 0x200A \<or> c = 0x2028 \<or> c = 0x2029 \<or> c = 0x202F
      \<or> c = 0x205F \<or> c = 0x3000)"

text \<open>\<^verbatim>\<open>str(n)\<close> for an integer, as the f-strings of the script render it.\<close>

fun str_nat :: "nat \<Rightarrow> string" where
  "str_nat n =
     (if n < 10 then [''0123456789'' ! n]
      else str_nat (n div 10) @ [''0123456789'' ! (n mod 10)])"

declare str_nat.simps [simp del]

definition str_int :: "int \<Rightarrow> string" where
  "str_int i = (if i < 0 then CHR ''-'' # str_nat (nat (- i)) else str_nat (nat i))"

section \<open>The application and its surroundings\<close>

subsection \<open>Configuration\<close>

definition CHARGE_THRESHOLD_FILE_PATH :: string where
  "CHARGE_THRESHOLD_FILE_PATH = ''/sys/class/power_supply/BAT*/charge_control_end_threshold''"

subsection \<open>Effects\<close>

text \<open>
  Everything the script does to the outside is recorded, in order, in a log of events:
  the message boxes, \<^verbatim>\<open>self.master.quit()\<close>, the widget creation, each update of the
  label, \<^verbatim>\<open>print\<close>, and the calls of \<^verbatim>\<open>glob.glob\<close>, \<^verbatim>\<open>os.path.exists\<close>,
  \<^verbatim>\<open>open\<close> and \<^verbatim>\<open>subprocess.run\<close>.
\<close>

datatype event =
    ShowError string string
  | ShowWarning string string
  | ShowInfo string string
  | Quit
  | CreateWidgets
  | LabelConfig string
  | Print string
  | GlobCall string
  | PathExists string
  | OpenRead string
  | SubprocessRun "string list"

text \<open>
  The fields of \<^verbatim>\<open>Application\<close> that the methods use: \<^verbatim>\<open>self.battery_path\<close>, the
  text of \<^verbatim>\<open>self.current_value_label\<close>, the text of \<^verbatim>\<open>self.entry\<close> (typed by the
  user), and the log.
\<close>

record app =
  battery_path :: "string option"
  label_text :: string
  entry_text :: "nat list"
  events :: "event list"

text \<open>
  What the system answers to the calls of one run of a method: the matches of a glob
  pattern (or the exception \<^verbatim>\<open>glob.glob\<close> raises), whether a path exists, the
  content that \<^verbatim>\<open>open(path).read()\<close> returns (or the exception it raises), the
  end of \<^verbatim>\<open>subprocess.run(command, check=True, ...)\<close> (normal, or the exception), and
  the interpreter's limit on the digits of an integer literal
  (\<^verbatim>\<open>sys.get_int_max_str_digits()\<close>, 0 when there is none), and the table of decimal
  digits of the interpreter's Unicode database. Unicode encodes the decimal digits of
  every script as a run of ten code points, zero to nine, so the table is given by the
  code points of the zeros.
\<close>

record os_env =
  glob :: "string \<Rightarrow> py_exception + string list"
  path_exists :: "string \<Rightarrow> bool"
  open_read :: "string \<Rightarrow> py_exception + string"
  subprocess_run :: "string list \<Rightarrow> py_exception + unit"
  max_str_digits :: nat
  decimal_zeros :: "nat list"

text \<open>A method either returns a value or raises, and leaves the application in a state.\<close>

datatype 'a outcome = Return 'a app | Raise py_exception app

definition emit :: "event \<Rightarrow> app \<Rightarrow> app" where
  "emit e a = a\<lparr>events := events a @ [e]\<rparr>"

definition config_label :: "string \<Rightarrow> app \<Rightarrow> app" where
  "config_label t a = emit (LabelConfig t) (a\<lparr>label_text := t\<rparr>)"

text \<open>Python's truth value of \<^verbatim>\<open>self.battery_path\<close>: false for \<open>None\<close> and for \<^verbatim>\<open>""\<close>.\<close>

definition truthy :: "string option \<Rightarrow> bool" where
  "truthy p = (case p of None \<Rightarrow> False | Some s \<Rightarrow> s \<noteq> [])"

subsection \<open>find_battery_path\<close>

definition not_found_message :: string where
  "not_found_message =
     ''Could not find the battery charge control file.'' @ [CHR 0x0A] @
     ''Searched for: '' @ CHARGE_THRESHOLD_FILE_PATH @ [CHR 0x0A, CHR 0x0A] @
     ''This script may not be compatible with your device.''"

definition find_battery_path :: "os_env \<Rightarrow> app \<Rightarrow> (string option) outcome" where
  "find_battery_path env a =
     (let a1 = emit (GlobCall CHARGE_THRESHOLD_FILE_PATH) a in
      case glob env CHARGE_THRESHOLD_FILE_PATH of
        Inr paths \<Rightarrow>
          (case paths of
             [] \<Rightarrow> Return None (emit Quit (emit (ShowError ''Error'' not_found_message) a1))
           | p # _ \<Rightarrow> Return (Some p) a1)
      | Inl e \<Rightarrow>
          if issubclass (cls e) Exception
          then Return None
                 (emit Quit
                   (emit (ShowError ''Error''
                      (''An error occurred while finding the battery path: '' @ str_e e)) a1))
          else Raise e a1)"

subsection \<open>load_current_threshold\<close>

text \<open>
  The body of the \<^verbatim>\<open>try\<close> (lines 57 to 59): open the file, read it, strip the text
  and show it. An exception of \<^verbatim>\<open>open\<close> or \<^verbatim>\<open>read\<close> leaves the label as it was.
\<close>

definition read_and_show :: "os_env \<Rightarrow> string \<Rightarrow> app \<Rightarrow> unit outcome" where
  "read_and_show env path a =
     (let a1 = emit (OpenRead path) a in
      case open_read env path of
        Inl e \<Rightarrow> Raise e a1
      | Inr content \<Rightarrow>
          (let current_value = strip content
           in Return () (config_label (''Current value: '' @ current_value @ ''%'') a1)))"

definition load_current_threshold :: "os_env \<Rightarrow> app \<Rightarrow> unit outcome" where
  "load_current_threshold env a =
     (case battery_path a of
        None \<Rightarrow> Return () (config_label ''Current value: Not Found'' a)
      | Some path \<Rightarrow>
          if path = [] then Return () (config_label ''Current value: Not Found'' a)
          else
            (let a1 = emit (PathExists path) a in
             if \<not> path_exists env path
             then Return () (config_label ''Current value: Not Found'' a1)
             else
               (case read_and_show env path a1 of
                  Return u a2 \<Rightarrow> Return u a2
                | Raise e a2 \<Rightarrow>
                    if issubclass (cls e) OSError \<or> issubclass (cls e) PermissionError
                    then Return ()
                           (emit (Print (''Error reading threshold value: '' @ str_e e))
                              (config_label ''Current value: Read Error'' a2))
                    else if issubclass (cls e) Exception
                    then Return ()
                           (emit (Print (''An unexpected error occurred: '' @ str_e e))
                              (config_label ''Current value: Unknown Error'' a2))
                    else Raise e a2)))"

subsection \<open>int(new_value)\<close>

text \<open>
  \<^verbatim>\<open>Py_UNICODE_TODECIMAL\<close>: the value of a code point as a decimal digit. Below U+0080
  the ASCII digits are the only decimal digits; above, the table of the interpreter
  decides.
\<close>

fun decimal_in :: "nat list \<Rightarrow> nat \<Rightarrow> nat option" where
  "decimal_in [] c = None"
| "decimal_in (z # zs) c = (if z \<le> c \<and> c < z + 10 then Some (c - z) else decimal_in zs c)"

definition Py_UNICODE_TODECIMAL :: "nat list \<Rightarrow> nat \<Rightarrow> nat option" where
  "Py_UNICODE_TODECIMAL zeros c =
     (if c < 128 then (if 48 \<le> c \<and> c \<le> 57 then Some (c - 48) else None)
      else decimal_in zeros c)"

text \<open>
  \<^verbatim>\<open>int(s)\<close> for a \<^verbatim>\<open>str\<close>, as CPython computes it. First the text is made ASCII:
  from U+007F on, a whitespace character becomes a space, a decimal digit becomes its
  ASCII digit, and at any other character a \<^verbatim>\<open>?\<close> is written and the conversion
  stops; a text that is ASCII already is taken as it is.
\<close>

fun transform_chars :: "nat list \<Rightarrow> nat list \<Rightarrow> string" where
  "transform_chars zeros [] = []"
| "transform_chars zeros (c # cs) =
     (if c < 127 then char_of c # transform_chars zeros cs
      else if unicode_isspace c then CHR '' '' # transform_chars zeros cs
      else
        (case Py_UNICODE_TODECIMAL zeros c of
           None \<Rightarrow> ''?''
         | Some d \<Rightarrow> char_of (48 + d) # transform_chars zeros cs))"

definition TransformDecimalAndSpaceToASCII :: "nat list \<Rightarrow> nat list \<Rightarrow> string" where
  "TransformDecimalAndSpaceToASCII zeros s =
     (if list_all (\<lambda>c. c < 128) s then map char_of s else transform_chars zeros s)"

definition is_digit :: "char \<Rightarrow> bool" where
  "is_digit c = ((48::nat) \<le> of_char c \<and> of_char c \<le> (57::nat))"

definition digit_value :: "char \<Rightarrow> int" where
  "digit_value c = int (of_char c) - 48"

text \<open>
  The scan of \<^verbatim>\<open>long_from_string_base\<close>: digits and underscores are consumed, the
  digits are counted, and two underscores in a row stop the scan with an error. The
  result is the last character consumed, the number of digits and the text left.
\<close>

fun scan_digits :: "char \<Rightarrow> nat \<Rightarrow> string \<Rightarrow> (char \<times> nat \<times> string) option" where
  "scan_digits prev digits [] = Some (prev, digits, [])"
| "scan_digits prev digits (c # cs) =
     (if is_digit c then scan_digits c (Suc digits) cs
      else if c = CHR ''_'' then (if prev = CHR ''_'' then None else scan_digits c digits cs)
      else Some (prev, digits, c # cs))"

text \<open>The value of the scanned text in base 10; underscores are skipped.\<close>

definition decimal_value :: "string \<Rightarrow> int" where
  "decimal_value body =
     foldl (\<lambda>acc c. if c = CHR ''_'' then acc else acc * 10 + digit_value c) 0 body"

text \<open>
  Both failures of the conversion are a \<^verbatim>\<open>ValueError\<close>; the script never looks at
  its message, which is shortened here (CPython appends the \<^verbatim>\<open>repr\<close> of the text,
  or the two numbers of digits).
\<close>

definition invalid_literal :: py_exception where
  "invalid_literal =
     \<lparr>cls = ValueError, str_e = ''invalid literal for int() with base 10'', stderr = None\<rparr>"

definition exceeds_limit :: py_exception where
  "exceeds_limit =
     \<lparr>cls = ValueError, str_e = ''Exceeds the limit for integer string conversion'',
      stderr = None\<rparr>"

text \<open>
  The text after the sign: it must not start with an underscore, the scan must end
  without a doubled or trailing underscore, something must have been consumed, only
  whitespace may follow, and the number of digits is checked against the limit (which
  CPython applies above 640 digits only).
\<close>

definition long_from_string_base :: "nat \<Rightarrow> string \<Rightarrow> py_exception + int" where
  "long_from_string_base lim s2 =
     (if (case s2 of [] \<Rightarrow> False | c # _ \<Rightarrow> c = CHR ''_'') then Inl invalid_literal
      else
        (case scan_digits (CHR 0x00) 0 s2 of
           None \<Rightarrow> Inl invalid_literal
         | Some (prev, digits, rest) \<Rightarrow>
             if prev = CHR ''_'' then Inl invalid_literal
             else if length rest = length s2 then Inl invalid_literal
             else if dropWhile Py_ISSPACE rest \<noteq> [] then Inl invalid_literal
             else if 640 < digits \<and> 0 < lim \<and> lim < digits then Inl exceeds_limit
             else Inr (decimal_value (take (length s2 - length rest) s2))))"

text \<open>Leading whitespace is skipped, then one sign is taken, in base 10.\<close>

definition PyLong_FromString :: "nat \<Rightarrow> string \<Rightarrow> py_exception + int" where
  "PyLong_FromString lim s =
     (let s1 = dropWhile Py_ISSPACE s;
          negative = (case s1 of [] \<Rightarrow> False | c # _ \<Rightarrow> c = CHR ''-'');
          s2 = (case s1 of [] \<Rightarrow> [] | c # r \<Rightarrow> if c = CHR ''+'' \<or> c = CHR ''-'' then r else s1)
      in case long_from_string_base lim s2 of
           Inl e \<Rightarrow> Inl e
         | Inr v \<Rightarrow> Inr (if negative then - v else v))"

definition py_int :: "nat list \<Rightarrow> nat \<Rightarrow> nat list \<Rightarrow> py_exception + int" where
  "py_int zeros lim s = PyLong_FromString lim (TransformDecimalAndSpaceToASCII zeros s)"

subsection \<open>set_new_threshold\<close>

text \<open>The body of the first \<^verbatim>\<open>try\<close> (lines 73 to 75): the validation of the input.\<close>

definition validate_input :: "os_env \<Rightarrow> nat list \<Rightarrow> py_exception + int" where
  "validate_input env new_value =
     (case py_int (decimal_zeros env) (max_str_digits env) new_value of
        Inl e \<Rightarrow> Inl e
      | Inr val_int \<Rightarrow>
          if \<not> (20 \<le> val_int \<and> val_int \<le> 100)
          then Inl \<lparr>cls = ValueError, str_e = [], stderr = None\<rparr>
          else Inr val_int)"

definition command :: "int \<Rightarrow> string \<Rightarrow> string list" where
  "command val_int path =
     [''pkexec'', ''/bin/bash'', ''-c'', ''echo '' @ str_int val_int @ '' > '' @ path]"

text \<open>
  The body of the second \<^verbatim>\<open>try\<close> (lines 96 to 99): run the command, announce the
  success, refresh the label.
\<close>

definition run_and_refresh :: "os_env \<Rightarrow> int \<Rightarrow> string list \<Rightarrow> app \<Rightarrow> unit outcome" where
  "run_and_refresh env val_int cmd a =
     (let a1 = emit (SubprocessRun cmd) a in
      case subprocess_run env cmd of
        Inl e \<Rightarrow> Raise e a1
      | Inr _ \<Rightarrow>
          load_current_threshold env
            (emit (ShowInfo ''Success''
               (''Battery charge threshold successfully set to '' @ str_int val_int @ ''%.''))
               a1))"

definition execution_failed_message :: "string \<Rightarrow> string" where
  "execution_failed_message error_message =
     ''Failed to set the new threshold.'' @ [CHR 0x0A, CHR 0x0A] @
     ''Reason: '' @ error_message @ [CHR 0x0A, CHR 0x0A] @
     ''Please ensure you have administrative privileges and entered the correct password.''"

definition pkexec_missing_message :: string where
  "pkexec_missing_message =
     ''The 'pkexec' command was not found.'' @ [CHR 0x0A] @
     ''Please ensure Polkit is installed on your system.''"

definition no_path_error :: event where
  "no_path_error =
     ShowError ''Error'' ''Cannot set threshold because battery path is not defined.''"

definition set_new_threshold :: "os_env \<Rightarrow> app \<Rightarrow> unit outcome" where
  "set_new_threshold env a =
     (let new_value = entry_text a in
      case validate_input env new_value of
        Inl e \<Rightarrow>
          if issubclass (cls e) ValueError
          then Return ()
                 (emit (ShowWarning ''Invalid Input''
                    ''Please enter a whole number between 20 and 100.'') a)
          else Raise e a
      | Inr val_int \<Rightarrow>
          (case battery_path a of
             None \<Rightarrow> Return () (emit no_path_error a)
           | Some path \<Rightarrow>
               if path = [] then Return () (emit no_path_error a)
               else
                 (case run_and_refresh env val_int (command val_int path) a of
                    Return u a' \<Rightarrow> Return u a'
                  | Raise e a' \<Rightarrow>
                      if issubclass (cls e) CalledProcessError
                      then
                        (let error_message =
                               (case stderr e of
                                  None \<Rightarrow> ''The command was rejected or failed.''
                                | Some t \<Rightarrow>
                                    if t = [] then ''The command was rejected or failed.''
                                    else strip t)
                         in Return ()
                              (emit (ShowError ''Execution Failed''
                                 (execution_failed_message error_message)) a'))
                      else if issubclass (cls e) FileNotFoundError
                      then Return () (emit (ShowError ''Error'' pkexec_missing_message) a')
                      else if issubclass (cls e) Exception
                      then Return ()
                             (emit (ShowError ''An Unexpected Error Occurred''
                                (''Details: '' @ str_e e)) a')
                      else Raise e a')))"

subsection \<open>create_widgets and the constructor\<close>

definition create_widgets :: "app \<Rightarrow> app" where
  "create_widgets a =
     emit CreateWidgets (a\<lparr>label_text := ''Current value: Loading...'', entry_text := []\<rparr>)"

text \<open>The object before \<^verbatim>\<open>__init__\<close> has run: no path, no widgets, nothing logged.\<close>

definition new_app :: app where
  "new_app = \<lparr>battery_path = None, label_text = [], entry_text = [], events = []\<rparr>"

definition Application_init :: "os_env \<Rightarrow> unit outcome" where
  "Application_init env =
     (case find_battery_path env new_app of
        Raise e a \<Rightarrow> Raise e a
      | Return p a \<Rightarrow>
          load_current_threshold env (create_widgets (a\<lparr>battery_path := p\<rparr>)))"

subsection \<open>Reading an outcome\<close>

fun state_of :: "'a outcome \<Rightarrow> app" where
  "state_of (Return _ a) = a"
| "state_of (Raise _ a) = a"

subsection \<open>Example systems\<close>

definition BAT0 :: string where
  "BAT0 = ''/sys/class/power_supply/BAT0/charge_control_end_threshold''"

definition BAT1 :: string where
  "BAT1 = ''/sys/class/power_supply/BAT1/charge_control_end_threshold''"

text \<open>
  The zeros of the 66 runs of decimal digits of Unicode 14.0, the database of
  Python 3.11.
\<close>

definition unicode_zeros :: "nat list" where
  "unicode_zeros =
    [0x30, 0x660, 0x6F0, 0x7C0, 0x966, 0x9E6, 0xA66, 0xAE6, 0xB66, 0xBE6, 0xC66, 0xCE6,
     0xD66, 0xDE6, 0xE50, 0xED0, 0xF20, 0x1040, 0x1090, 0x17E0, 0x1810, 0x1946, 0x19D0,
     0x1A80, 0x1A90, 0x1B50, 0x1BB0, 0x1C40, 0x1C50, 0xA620, 0xA8D0, 0xA900, 0xA9D0,
     0xA9F0, 0xAA50, 0xABF0, 0xFF10, 0x104A0, 0x10D30, 0x11066, 0x110F0, 0x11136, 0x111D0,
     0x112F0, 0x11450, 0x114D0, 0x11650, 0x116C0, 0x11730, 0x118E0, 0x11950, 0x11C50,
     0x11D50, 0x11DA0, 0x16A60, 0x16AC0, 0x16B50, 0x1D7CE, 0x1D7D8, 0x1D7E2, 0x1D7EC,
     0x1D7F6, 0x1E140, 0x1E2F0, 0x1E950, 0x1FBF0]"

text \<open>
  A laptop with two batteries whose control file holds \<^verbatim>\<open>80\<close> and a newline, where the
  user grants the privilege.
\<close>

definition laptop :: os_env where
  "laptop =
     \<lparr>glob = (\<lambda>_. Inr [BAT0, BAT1]),
      path_exists = (\<lambda>_. True),
      open_read = (\<lambda>_. Inr (''80'' @ [CHR 0x0A])),
      subprocess_run = (\<lambda>_. Inr ()),
      max_str_digits = 4300,
      decimal_zeros = unicode_zeros\<rparr>"

text \<open>A machine without the control file.\<close>

definition desktop :: os_env where
  "desktop = laptop\<lparr>glob := (\<lambda>_. Inr []), path_exists := (\<lambda>_. False)\<rparr>"

text \<open>The laptop with a control file that holds text instead of a number.\<close>

definition garbled :: os_env where
  "garbled = laptop\<lparr>open_read := (\<lambda>_. Inr (''abc'' @ [CHR 0x0A]))\<rparr>"

text \<open>The application of the laptop once its path is known.\<close>

definition ready_app :: app where
  "ready_app = new_app\<lparr>battery_path := Some BAT0\<rparr>"

text \<open>The application after the user has typed a text into the entry.\<close>

definition typed :: "string \<Rightarrow> app" where
  "typed t = ready_app\<lparr>entry_text := codes t\<rparr>"

text \<open>The laptop when the user dismisses the prompt of the elevation tool.\<close>

definition dismissing :: os_env where
  "dismissing =
     laptop\<lparr>subprocess_run :=
       (\<lambda>_. Inl \<lparr>cls = CalledProcessError,
                  str_e = ''Command returned non-zero exit status 126.'',
                  stderr = Some ''Request dismissed''\<rparr>)\<rparr>"

text \<open>The laptop without Polkit installed.\<close>

definition no_pkexec :: os_env where
  "no_pkexec =
     laptop\<lparr>subprocess_run :=
       (\<lambda>_. Inl \<lparr>cls = FileNotFoundError,
                  str_e = ''[Errno 2] No such file or directory'',
                  stderr = None\<rparr>)\<rparr>"

subsection \<open>Reading the log\<close>

text \<open>The external commands started, in order.\<close>

fun run_commands :: "event list \<Rightarrow> string list list" where
  "run_commands [] = []"
| "run_commands (SubprocessRun cmd # es) = cmd # run_commands es"
| "run_commands (_ # es) = run_commands es"

text \<open>The calls that read or write the system after the path has been looked up.\<close>

fun system_calls :: "event list \<Rightarrow> event list" where
  "system_calls [] = []"
| "system_calls (PathExists p # es) = PathExists p # system_calls es"
| "system_calls (OpenRead p # es) = OpenRead p # system_calls es"
| "system_calls (SubprocessRun cmd # es) = SubprocessRun cmd # system_calls es"
| "system_calls (_ # es) = system_calls es"

text \<open>How often \<^verbatim>\<open>self.master.quit()\<close> has been called.\<close>

fun quits :: "event list \<Rightarrow> nat" where
  "quits [] = 0"
| "quits (Quit # es) = Suc (quits es)"
| "quits (_ # es) = quits es"

subsection \<open>The main block\<close>

text \<open>
  The only callback of the window is \<^verbatim>\<open>set_new_threshold\<close>, bound to the button. A
  session is a list of clicks that gives, for each click, the system as it is then and
  the text then in the entry; after the last of them the user closes the window.

  \<^verbatim>\<open>mainloop\<close> of Tkinter clears the quit flag when it is entered, then handles one event
  after the other and returns once a handler has called \<^verbatim>\<open>quit\<close>. A call of
  \<^verbatim>\<open>quit\<close> made before the loop is entered is therefore without effect on it.
\<close>

fun mainloop :: "(os_env \<times> nat list) list \<Rightarrow> app \<Rightarrow> app" where
  "mainloop [] a = a"
| "mainloop ((env, t) # cs) a =
     (let a' = state_of (set_new_threshold env (a\<lparr>entry_text := t\<rparr>))
      in if quits (events a') \<noteq> quits (events a) then a' else mainloop cs a')"

text \<open>
  Lines 143 to 150: the application is constructed, then the loop runs. An exception of
  the constructor would end the script before the loop.
\<close>

definition main_block :: "os_env \<Rightarrow> (os_env \<times> nat list) list \<Rightarrow> app" where
  "main_block env cs =
     (case Application_init env of
        Raise e a \<Rightarrow> a
      | Return _ a \<Rightarrow> mainloop cs a)"

subsection \<open>Integer literals\<close>

text \<open>
  The texts that \<^verbatim>\<open>int\<close> accepts in base 10, described on the code points of the text.
  A digit is a code point with a decimal digit value that is not whitespace; the
  whitespace that may surround a literal is that of \<^verbatim>\<open>str.isspace\<close> without the four
  separators U+001C to U+001F, which the parser does not skip.
\<close>

definition literal_digit :: "nat list \<Rightarrow> nat \<Rightarrow> nat option" where
  "literal_digit zeros c = (if unicode_isspace c then None else Py_UNICODE_TODECIMAL zeros c)"

definition literal_space :: "nat \<Rightarrow> bool" where
  "literal_space c = (unicode_isspace c \<and> \<not> (28 \<le> c \<and> c \<le> 31))"

text \<open>Digits, where single underscores (U+005F) may stand between digits.\<close>

fun digit_groups :: "nat list \<Rightarrow> nat list \<Rightarrow> bool" where
  "digit_groups zeros [] = False"
| "digit_groups zeros [c] = (literal_digit zeros c \<noteq> None)"
| "digit_groups zeros (c # d # cs) =
     (literal_digit zeros c \<noteq> None \<and>
      (if d = 95 then digit_groups zeros cs else digit_groups zeros (d # cs)))"

definition digit_count :: "nat list \<Rightarrow> nat list \<Rightarrow> nat" where
  "digit_count zeros body = length (filter (\<lambda>c. literal_digit zeros c \<noteq> None) body)"

text \<open>The value of the digits of a text in base 10; what is not a digit is skipped.\<close>

definition literal_value :: "nat list \<Rightarrow> nat list \<Rightarrow> int" where
  "literal_value zeros body =
     foldl (\<lambda>acc c. case literal_digit zeros c of None \<Rightarrow> acc | Some d \<Rightarrow> acc * 10 + int d)
       0 body"

text \<open>
  The pattern of the specification, \<^verbatim>\<open>^-?\d+$\<close> with no extraneous characters: an
  optional minus sign followed by one or more digits, and nothing else. The digits are
  read in the widest sense, as any decimal digit of Unicode.
\<close>

definition spec_pattern :: "nat list \<Rightarrow> nat list \<Rightarrow> bool" where
  "spec_pattern zeros s =
     (case s of
        [] \<Rightarrow> False
      | c # cs \<Rightarrow>
          if c = 45 then cs \<noteq> [] \<and> list_all (\<lambda>d. literal_digit zeros d \<noteq> None) cs
          else list_all (\<lambda>d. literal_digit zeros d \<noteq> None) (c # cs))"

text \<open>
  For the analysis of the parser, on the ASCII text that it scans: the literals of digits
  and single underscores, the characters that the scan consumes, a doubled underscore in
  a text, and the characters that an accepted text can consist of.
\<close>

fun grouped_digits :: "string \<Rightarrow> bool" where
  "grouped_digits [] = False"
| "grouped_digits [c] = is_digit c"
| "grouped_digits (c # d # cs) =
     (is_digit c \<and> (if d = CHR ''_'' then grouped_digits cs else grouped_digits (d # cs)))"

definition literal_char :: "char \<Rightarrow> bool" where
  "literal_char c = (is_digit c \<or> c = CHR ''_'')"

fun double_underscore :: "string \<Rightarrow> bool" where
  "double_underscore (c # d # cs) =
     (c = CHR ''_'' \<and> d = CHR ''_'' \<or> double_underscore (d # cs))"
| "double_underscore _ = False"

definition literal_text :: "char \<Rightarrow> bool" where
  "literal_text c = (Py_ISSPACE c \<or> c = CHR ''+'' \<or> c = CHR ''-'' \<or> literal_char c)"

text \<open>
  The conversion of one code point to ASCII, and the code points at which the conversion
  does not stop.
\<close>

definition to_ascii :: "nat list \<Rightarrow> nat \<Rightarrow> char" where
  "to_ascii zeros c =
     (if c < 127 then char_of c
      else if unicode_isspace c then CHR '' ''
      else (case Py_UNICODE_TODECIMAL zeros c of None \<Rightarrow> CHR ''?'' | Some d \<Rightarrow> char_of (48 + d)))"

definition convertible :: "nat list \<Rightarrow> nat \<Rightarrow> bool" where
  "convertible zeros c =
     (c < 127 \<or> unicode_isspace c \<or> Py_UNICODE_TODECIMAL zeros c \<noteq> None)"

section \<open>Path resolution\<close>

text \<open>
  Claim C8. Whenever the glob returns at least one match, \<open>find_battery_path\<close> returns
  the first match of the list in the order the filesystem gave, whatever the other matches
  are and however many there are; it shows no dialog and requests no quit.
\<close>

theorem find_battery_path_first_match:
  assumes "glob env CHARGE_THRESHOLD_FILE_PATH = Inr (p # ps)"
  shows "find_battery_path env a =
           Return (Some p) (emit (GlobCall CHARGE_THRESHOLD_FILE_PATH) a)"
  using assms by (simp add: find_battery_path_def)

theorem find_battery_path_first_match_witness:
  "glob laptop CHARGE_THRESHOLD_FILE_PATH = Inr (BAT0 # [BAT1]) \<and>
   find_battery_path laptop new_app =
     Return (Some BAT0) (emit (GlobCall CHARGE_THRESHOLD_FILE_PATH) new_app)"
  using find_battery_path_first_match [of laptop BAT0 "[BAT1]" new_app]
  by (simp add: laptop_def)

section \<open>Reading the threshold\<close>

subsection \<open>What strip removes\<close>

lemma rev_dropWhile_rev_split:
  "xs = rev (dropWhile P (rev xs)) @ rev (takeWhile P (rev xs))"
  by (metis rev_append rev_rev_ident takeWhile_dropWhile_id)

lemma list_all_takeWhile: "list_all P (takeWhile P xs)"
  by (induction xs) auto

lemma strip_surrounding:
  "\<exists>pre post. s = pre @ strip s @ post \<and>
     list_all Py_UNICODE_ISSPACE pre \<and> list_all Py_UNICODE_ISSPACE post"
proof -
  let ?d = "dropWhile Py_UNICODE_ISSPACE s"
  let ?pre = "takeWhile Py_UNICODE_ISSPACE s"
  let ?post = "rev (takeWhile Py_UNICODE_ISSPACE (rev ?d))"
  have d: "?d = strip s @ ?post"
    unfolding strip_def by (rule rev_dropWhile_rev_split)
  have "s = ?pre @ ?d" by simp
  with d have "s = ?pre @ strip s @ ?post" by simp
  moreover have "list_all Py_UNICODE_ISSPACE ?pre"
    by (rule list_all_takeWhile)
  moreover have "list_all Py_UNICODE_ISSPACE ?post"
    by (simp add: list_all_takeWhile)
  ultimately show ?thesis by blast
qed

lemma strip_ends:
  assumes "strip s \<noteq> []"
  shows "\<not> Py_UNICODE_ISSPACE (hd (strip s)) \<and> \<not> Py_UNICODE_ISSPACE (last (strip s))"
proof -
  let ?d = "dropWhile Py_UNICODE_ISSPACE s"
  let ?e = "dropWhile Py_UNICODE_ISSPACE (rev ?d)"
  from assms have e: "?e \<noteq> []" by (simp add: strip_def)
  have d: "?d \<noteq> []"
  proof
    assume h: "?d = []"
    have "?e = []" unfolding h by simp
    with e show False by blast
  qed
  have "last (strip s) = hd ?e" using e by (simp add: strip_def last_rev)
  moreover have "\<not> Py_UNICODE_ISSPACE (hd ?e)" using e by (rule hd_dropWhile)
  moreover have "hd (strip s) = last ?e" using e by (simp add: strip_def hd_rev)
  moreover have "last ?e = last (rev ?d)"
    using e by (metis last_appendR takeWhile_dropWhile_id)
  moreover have "last (rev ?d) = hd ?d" using d by (simp add: last_rev)
  moreover have "\<not> Py_UNICODE_ISSPACE (hd ?d)" using d by (rule hd_dropWhile)
  ultimately show ?thesis by simp
qed

subsection \<open>load_current_threshold\<close>

lemma load_current_threshold_read_ok:
  assumes "battery_path a = Some path" and "path \<noteq> []" and "path_exists env path"
    and "open_read env path = Inr content"
  shows "load_current_threshold env a =
           Return () (config_label (''Current value: '' @ strip content @ ''%'')
                        (emit (OpenRead path) (emit (PathExists path) a)))"
  using assms by (simp add: load_current_threshold_def read_and_show_def Let_def)

lemma load_current_threshold_returns:
  "\<exists>a'. load_current_threshold env a = Return () a'"
  by (auto simp: load_current_threshold_def read_and_show_def Let_def
      split: option.splits sum.splits)

text \<open>
  Claim C6. For every application state and every answer of the system,
  \<open>load_current_threshold\<close> returns normally: whatever \<^verbatim>\<open>open\<close> or \<^verbatim>\<open>read\<close>
  raises is caught, and the label ends as one of the four display states: not found,
  read error, unknown error, or the stripped content of the file followed by a percent
  sign.
\<close>

theorem load_current_threshold_total:
  "\<exists>a'. load_current_threshold env a = Return () a' \<and>
     (label_text a' = ''Current value: Not Found'' \<or>
      label_text a' = ''Current value: Read Error'' \<or>
      label_text a' = ''Current value: Unknown Error'' \<or>
      (\<exists>path content. battery_path a = Some path \<and> open_read env path = Inr content \<and>
         label_text a' = ''Current value: '' @ strip content @ ''%''))"
  by (auto simp: load_current_threshold_def read_and_show_def Let_def config_label_def emit_def
      split: option.splits sum.splits)

text \<open>
  Claim C7. When the control file holds \<^verbatim>\<open>80\<close> followed by a newline, the value read
  is the text \<^verbatim>\<open>80\<close>, the decimal form of the number 80, and the label becomes exactly
  \<^verbatim>\<open>Current value: 80%\<close>.
\<close>

theorem read_80_shows_80_percent:
  assumes "battery_path a = Some path" and "path \<noteq> []" and "path_exists env path"
    and "open_read env path = Inr (''80'' @ [CHR 0x0A])"
  shows "strip (''80'' @ [CHR 0x0A]) = str_int 80 \<and>
         (\<exists>a'. load_current_threshold env a = Return () a' \<and>
                label_text a' = ''Current value: 80%'')"
proof -
  have s: "strip (''80'' @ [CHR 0x0A]) = ''80''"
    by (simp add: strip_def Py_UNICODE_ISSPACE_def)
  have "str_int 80 = ''80''"
    by (simp add: str_int_def str_nat.simps)
  with s have "strip (''80'' @ [CHR 0x0A]) = str_int 80" by simp
  moreover have "label_text (config_label (''Current value: '' @ ''80'' @ ''%'') b) =
      ''Current value: 80%''" for b
    by (simp add: config_label_def emit_def)
  ultimately show ?thesis
    using load_current_threshold_read_ok [OF assms] s by simp
qed

theorem read_80_shows_80_percent_witness:
  "battery_path ready_app = Some BAT0 \<and> BAT0 \<noteq> [] \<and> path_exists laptop BAT0 \<and>
   open_read laptop BAT0 = Inr (''80'' @ [CHR 0x0A]) \<and>
   (\<exists>a'. load_current_threshold laptop ready_app = Return () a' \<and>
          label_text a' = ''Current value: 80%'')"
  using read_80_shows_80_percent [of ready_app BAT0 laptop]
  by (simp add: ready_app_def new_app_def laptop_def BAT0_def)

text \<open>
  Claim C10. Whenever the file is read successfully, the label is \<^verbatim>\<open>Current value: \<close>
  followed by the content without its surrounding whitespace, followed by \<^verbatim>\<open>%\<close>. The
  content is not parsed as a number: what is shown is the content itself, minus a
  prefix and a suffix of whitespace, and it neither starts nor ends with whitespace. So a
  file holding \<^verbatim>\<open>abc\<close> and a newline is shown as \<^verbatim>\<open>Current value: abc%\<close>.
\<close>

theorem label_is_stripped_content:
  assumes "battery_path a = Some path" and "path \<noteq> []" and "path_exists env path"
    and "open_read env path = Inr content"
  shows "(\<exists>a'. load_current_threshold env a = Return () a' \<and>
                label_text a' = ''Current value: '' @ strip content @ ''%'') \<and>
         (\<exists>pre post. content = pre @ strip content @ post \<and>
            list_all Py_UNICODE_ISSPACE pre \<and> list_all Py_UNICODE_ISSPACE post) \<and>
         (strip content = [] \<or>
          \<not> Py_UNICODE_ISSPACE (hd (strip content)) \<and>
          \<not> Py_UNICODE_ISSPACE (last (strip content)))"
proof -
  have "label_text (config_label t b) = t" for t b
    by (simp add: config_label_def emit_def)
  then have "\<exists>a'. load_current_threshold env a = Return () a' \<and>
      label_text a' = ''Current value: '' @ strip content @ ''%''"
    using load_current_threshold_read_ok [OF assms] by simp
  moreover note strip_surrounding [of content]
  moreover have "strip content = [] \<or>
      \<not> Py_UNICODE_ISSPACE (hd (strip content)) \<and>
      \<not> Py_UNICODE_ISSPACE (last (strip content))"
    using strip_ends [of content] by blast
  ultimately show ?thesis by blast
qed

theorem label_is_stripped_content_witness:
  "battery_path ready_app = Some BAT0 \<and> BAT0 \<noteq> [] \<and> path_exists garbled BAT0 \<and>
   open_read garbled BAT0 = Inr (''abc'' @ [CHR 0x0A]) \<and>
   (\<exists>a'. load_current_threshold garbled ready_app = Return () a' \<and>
          label_text a' = ''Current value: abc%'')"
proof -
  have "strip (''abc'' @ [CHR 0x0A]) = ''abc''"
    by (simp add: strip_def Py_UNICODE_ISSPACE_def)
  then show ?thesis
    using label_is_stripped_content [of ready_app BAT0 garbled "''abc'' @ [CHR 0x0A]"]
    by (simp add: ready_app_def new_app_def garbled_def laptop_def BAT0_def)
qed

section \<open>Writing the threshold\<close>

subsection \<open>The log of commands\<close>

lemma run_commands_append: "run_commands (xs @ ys) = run_commands xs @ run_commands ys"
  by (induction xs rule: run_commands.induct) auto

lemma run_commands_load:
  "run_commands (events (state_of (load_current_threshold env a))) = run_commands (events a)"
  by (auto simp: load_current_threshold_def read_and_show_def Let_def config_label_def emit_def
      run_commands_append split: option.splits sum.splits)

lemma events_load:
  "\<exists>more. events (state_of (load_current_threshold env a)) = events a @ more \<and>
     run_commands more = []"
  by (auto simp: load_current_threshold_def read_and_show_def Let_def config_label_def emit_def
      split: option.splits sum.splits)

subsection \<open>Decimal rendering\<close>

lemma digit_char:
  assumes "d < 10"
  shows "is_digit (''0123456789'' ! d) \<and> digit_value (''0123456789'' ! d) = int d \<and>
         ''0123456789'' ! d \<noteq> CHR ''_''"
proof -
  from assms have "d \<in> {0, 1, 2, 3, 4, 5, 6, 7, 8, 9}" by auto
  then show ?thesis by (auto simp: is_digit_def digit_value_def)
qed

lemma decimal_value_snoc:
  "decimal_value (xs @ [c]) =
     (if c = CHR ''_'' then decimal_value xs else decimal_value xs * 10 + digit_value c)"
  by (simp add: decimal_value_def)

lemma str_nat_decimal: "list_all is_digit (str_nat n) \<and> decimal_value (str_nat n) = int n"
proof (induction n rule: str_nat.induct)
  case (1 n)
  show ?case
  proof (cases "n < 10")
    case True
    then have "str_nat n = [''0123456789'' ! n]" by (subst str_nat.simps) simp
    with digit_char [OF True] show ?thesis by (simp add: decimal_value_def)
  next
    case False
    then have s: "str_nat n = str_nat (n div 10) @ [''0123456789'' ! (n mod 10)]"
      by (subst str_nat.simps) simp
    have d: "n mod 10 < 10" by simp
    have "int (n div 10) * 10 + int (n mod 10) = int n" by presburger
    with "1.IH" [OF False] digit_char [OF d] show ?thesis
      unfolding s by (simp add: decimal_value_snoc)
  qed
qed

subsection \<open>The branches of set_new_threshold\<close>

lemma PyLong_FromString_raises_ValueError:
  "PyLong_FromString lim s = Inl e \<Longrightarrow> cls e = ValueError"
  by (auto simp: PyLong_FromString_def long_from_string_base_def Let_def invalid_literal_def
      exceeds_limit_def split: if_splits option.splits prod.splits sum.splits)

lemma validate_input_raises_ValueError:
  "validate_input env s = Inl e \<Longrightarrow> cls e = ValueError"
  by (auto simp: validate_input_def py_int_def split: sum.splits if_splits
      dest: PyLong_FromString_raises_ValueError)

lemma validate_input_range:
  "validate_input env s = Inr v \<Longrightarrow>
     py_int (decimal_zeros env) (max_str_digits env) s = Inr v \<and> 20 \<le> v \<and> v \<le> 100"
  by (auto simp: validate_input_def split: sum.splits if_splits)

lemma set_new_threshold_invalid:
  assumes "validate_input env (entry_text a) = Inl e"
  shows "set_new_threshold env a =
           Return () (emit (ShowWarning ''Invalid Input''
                        ''Please enter a whole number between 20 and 100.'') a)"
  using assms validate_input_raises_ValueError [OF assms]
  by (simp add: set_new_threshold_def)

lemma set_new_threshold_no_path:
  assumes "validate_input env (entry_text a) = Inr v" and "\<not> truthy (battery_path a)"
  shows "set_new_threshold env a = Return () (emit no_path_error a)"
  using assms by (simp add: set_new_threshold_def truthy_def split: option.splits)

lemma set_new_threshold_success:
  assumes "validate_input env (entry_text a) = Inr v" and "battery_path a = Some p" and "p \<noteq> []"
    and "subprocess_run env (command v p) = Inr u"
  shows "set_new_threshold env a =
           load_current_threshold env
             (emit (ShowInfo ''Success''
                (''Battery charge threshold successfully set to '' @ str_int v @ ''%.''))
                (emit (SubprocessRun (command v p)) a))"
proof -
  obtain a' where "load_current_threshold env
             (emit (ShowInfo ''Success''
                (''Battery charge threshold successfully set to '' @ str_int v @ ''%.''))
                (emit (SubprocessRun (command v p)) a)) = Return () a'"
    using load_current_threshold_returns by blast
  then show ?thesis
    using assms by (simp add: set_new_threshold_def run_and_refresh_def Let_def)
qed

lemma set_new_threshold_failure:
  assumes "validate_input env (entry_text a) = Inr v" and "battery_path a = Some p" and "p \<noteq> []"
    and "subprocess_run env (command v p) = Inl e"
  shows "\<exists>t m. set_new_threshold env a =
           Return () (emit (ShowError t m) (emit (SubprocessRun (command v p)) a))"
  using assms by (auto simp: set_new_threshold_def run_and_refresh_def Let_def)

lemma set_new_threshold_runs:
  assumes "validate_input env (entry_text a) = Inr v" and "battery_path a = Some p" and "p \<noteq> []"
  shows "\<exists>rest. events (state_of (set_new_threshold env a)) =
          events a @ SubprocessRun (command v p) # rest \<and> run_commands rest = []"
proof (cases "subprocess_run env (command v p)")
  case (Inl e)
  from set_new_threshold_failure [OF assms Inl] show ?thesis
    by (auto simp: emit_def)
next
  case (Inr u)
  let ?b = "emit (ShowInfo ''Success''
              (''Battery charge threshold successfully set to '' @ str_int v @ ''%.''))
              (emit (SubprocessRun (command v p)) a)"
  obtain more where "events (state_of (load_current_threshold env ?b)) = events ?b @ more"
    and "run_commands more = []"
    using events_load by blast
  with set_new_threshold_success [OF assms Inr] show ?thesis
    by (simp add: emit_def)
qed

subsection \<open>Examples\<close>

lemma Transform_codes:
  "list_all (\<lambda>c. of_char c < (128::nat)) t \<Longrightarrow>
     TransformDecimalAndSpaceToASCII zeros (codes t) = t"
  by (simp add: TransformDecimalAndSpaceToASCII_def codes_def list_all_iff map_idI)

lemma py_int_85: "py_int unicode_zeros 4300 (codes ''85'') = Inr 85"
  by (simp add: py_int_def Transform_codes PyLong_FromString_def
      long_from_string_base_def Py_ISSPACE_def is_digit_def decimal_value_def digit_value_def)

lemma validate_85: "validate_input laptop (codes ''85'') = Inr 85"
  by (simp add: validate_input_def laptop_def py_int_85)

lemma str_int_85: "str_int 85 = ''85''"
  by (simp add: str_int_def str_nat.simps)

lemma py_int_abc: "py_int unicode_zeros 4300 (codes ''abc'') = Inl invalid_literal"
  by (simp add: py_int_def Transform_codes PyLong_FromString_def
      long_from_string_base_def Py_ISSPACE_def is_digit_def)

lemma strip_Request_dismissed: "strip ''Request dismissed'' = ''Request dismissed''"
  by (simp add: strip_def Py_UNICODE_ISSPACE_def)

subsection \<open>The claims about the write\<close>

text \<open>
  Claim C3. For every validated value \<open>v\<close> and every non-empty path \<open>p\<close>, the first thing
  \<open>set_new_threshold\<close> does is to run the command \<^verbatim>\<open>pkexec /bin/bash -c "echo v > p"\<close>,
  and whatever happens afterwards starts no other command. The value is rendered in
  decimal: its text consists of digits only and reads back as \<open>v\<close>.
\<close>

theorem write_runs_one_command:
  assumes "validate_input env (entry_text a) = Inr v" and "battery_path a = Some p" and "p \<noteq> []"
  shows "(\<exists>rest. events (state_of (set_new_threshold env a)) =
            events a @
            SubprocessRun [''pkexec'', ''/bin/bash'', ''-c'', ''echo '' @ str_int v @ '' > '' @ p]
              # rest \<and>
            run_commands rest = []) \<and>
         list_all is_digit (str_int v) \<and> decimal_value (str_int v) = v"
proof -
  from assms(1) have "0 \<le> v"
    using validate_input_range by fastforce
  then have "list_all is_digit (str_int v) \<and> decimal_value (str_int v) = v"
    using str_nat_decimal [of "nat v"] by (simp add: str_int_def)
  with set_new_threshold_runs [OF assms] show ?thesis
    by (simp add: command_def)
qed

theorem write_runs_one_command_witness:
  "validate_input laptop (entry_text (typed ''85'')) = Inr 85 \<and>
   battery_path (typed ''85'') = Some BAT0 \<and> BAT0 \<noteq> [] \<and>
   (\<exists>rest. events (state_of (set_new_threshold laptop (typed ''85''))) =
      SubprocessRun [''pkexec'', ''/bin/bash'', ''-c'',
        ''echo 85 > /sys/class/power_supply/BAT0/charge_control_end_threshold''] # rest \<and>
      run_commands rest = [])"
proof -
  have "validate_input laptop (entry_text (typed ''85'')) = Inr 85"
    by (simp add: typed_def validate_85)
  moreover have "battery_path (typed ''85'') = Some BAT0"
    by (simp add: typed_def ready_app_def)
  moreover have "BAT0 \<noteq> []" by (simp add: BAT0_def)
  moreover have "events (typed ''85'') = []"
    by (simp add: typed_def ready_app_def new_app_def)
  ultimately show ?thesis
    using write_runs_one_command [of laptop "typed ''85''" 85 BAT0]
    by (simp add: str_int_85 BAT0_def)
qed

text \<open>
  Claim C4. When the command ends with a non-zero exit status and the standard error
  \<^verbatim>\<open>Request dismissed\<close>, \<open>set_new_threshold\<close> shows the error box
  \<^verbatim>\<open>Execution Failed\<close> whose reason is that text, and does nothing else: the file is
  not read again, and the label and the path stay as they were.
\<close>

theorem dismissed_request_is_reported:
  assumes "validate_input env (entry_text a) = Inr v" and "battery_path a = Some p" and "p \<noteq> []"
    and "subprocess_run env (command v p) = Inl e"
    and "cls e = CalledProcessError" and "stderr e = Some ''Request dismissed''"
  shows "set_new_threshold env a =
           Return ()
             (emit (ShowError ''Execution Failed''
                (''Failed to set the new threshold.'' @ [CHR 0x0A, CHR 0x0A] @
                 ''Reason: Request dismissed'' @ [CHR 0x0A, CHR 0x0A] @
                 ''Please ensure you have administrative privileges and entered the correct password.''))
                (emit (SubprocessRun (command v p)) a)) \<and>
         label_text (state_of (set_new_threshold env a)) = label_text a \<and>
         battery_path (state_of (set_new_threshold env a)) = battery_path a"
  using assms
  by (simp add: set_new_threshold_def run_and_refresh_def Let_def strip_Request_dismissed
      execution_failed_message_def emit_def)

theorem dismissed_request_is_reported_witness:
  "validate_input dismissing (entry_text (typed ''85'')) = Inr 85 \<and>
   battery_path (typed ''85'') = Some BAT0 \<and> BAT0 \<noteq> [] \<and>
   events (state_of (set_new_threshold dismissing (typed ''85''))) =
     [SubprocessRun (command 85 BAT0),
      ShowError ''Execution Failed''
        (''Failed to set the new threshold.'' @ [CHR 0x0A, CHR 0x0A] @
         ''Reason: Request dismissed'' @ [CHR 0x0A, CHR 0x0A] @
         ''Please ensure you have administrative privileges and entered the correct password.'')] \<and>
   label_text (state_of (set_new_threshold dismissing (typed ''85''))) = label_text (typed ''85'')"
proof -
  have "validate_input dismissing (entry_text (typed ''85'')) = Inr 85"
    by (simp add: typed_def validate_input_def dismissing_def laptop_def py_int_85)
  moreover have "battery_path (typed ''85'') = Some BAT0"
    by (simp add: typed_def ready_app_def)
  moreover have "BAT0 \<noteq> []" by (simp add: BAT0_def)
  moreover have "events (typed ''85'') = []"
    by (simp add: typed_def ready_app_def new_app_def)
  ultimately show ?thesis
    using dismissed_request_is_reported [of dismissing "typed ''85''" 85 BAT0
        "\<lparr>cls = CalledProcessError, str_e = ''Command returned non-zero exit status 126.'',
          stderr = Some ''Request dismissed''\<rparr>"]
    by (simp add: dismissing_def emit_def)
qed

text \<open>
  Claim C9. When \<^verbatim>\<open>pkexec\<close> is not installed, so that running the command raises
  \<^verbatim>\<open>FileNotFoundError\<close>, \<open>set_new_threshold\<close> shows the error box that names the
  missing command, whatever the validated value is.
\<close>

theorem missing_pkexec_is_reported:
  assumes "validate_input env (entry_text a) = Inr v" and "battery_path a = Some p" and "p \<noteq> []"
    and "subprocess_run env (command v p) = Inl e" and "cls e = FileNotFoundError"
  shows "set_new_threshold env a =
           Return ()
             (emit (ShowError ''Error''
                (''The 'pkexec' command was not found.'' @ [CHR 0x0A] @
                 ''Please ensure Polkit is installed on your system.''))
                (emit (SubprocessRun (command v p)) a))"
  using assms
  by (simp add: set_new_threshold_def run_and_refresh_def Let_def pkexec_missing_message_def)

theorem missing_pkexec_is_reported_witness:
  "validate_input no_pkexec (entry_text (typed ''85'')) = Inr 85 \<and>
   battery_path (typed ''85'') = Some BAT0 \<and> BAT0 \<noteq> [] \<and>
   events (state_of (set_new_threshold no_pkexec (typed ''85''))) =
     [SubprocessRun (command 85 BAT0),
      ShowError ''Error''
        (''The 'pkexec' command was not found.'' @ [CHR 0x0A] @
         ''Please ensure Polkit is installed on your system.'')]"
proof -
  have "validate_input no_pkexec (entry_text (typed ''85'')) = Inr 85"
    by (simp add: typed_def validate_input_def no_pkexec_def laptop_def py_int_85)
  moreover have "battery_path (typed ''85'') = Some BAT0"
    by (simp add: typed_def ready_app_def)
  moreover have "BAT0 \<noteq> []" by (simp add: BAT0_def)
  moreover have "events (typed ''85'') = []"
    by (simp add: typed_def ready_app_def new_app_def)
  ultimately show ?thesis
    using missing_pkexec_is_reported [of no_pkexec "typed ''85''" 85 BAT0
        "\<lparr>cls = FileNotFoundError, str_e = ''[Errno 2] No such file or directory'',
          stderr = None\<rparr>"]
    by (simp add: no_pkexec_def emit_def)
qed

text \<open>
  Claim C5. In every run of \<open>set_new_threshold\<close>, a command is started only if the text
  of the entry parses as an integer between 20 and 100 and the path is not \<open>None\<close>. In
  every other case the run ends with one message box (the warning about the input, or
  the error about the missing path) and starts no command.
\<close>

theorem write_only_when_valid_and_path_present:
  "(run_commands (events (state_of (set_new_threshold env a))) \<noteq> run_commands (events a) \<longrightarrow>
      (\<exists>v. py_int (decimal_zeros env) (max_str_digits env) (entry_text a) = Inr v \<and>
           20 \<le> v \<and> v \<le> 100) \<and>
      battery_path a \<noteq> None) \<and>
   (\<not> ((\<exists>v. py_int (decimal_zeros env) (max_str_digits env) (entry_text a) = Inr v \<and>
             20 \<le> v \<and> v \<le> 100) \<and>
        battery_path a \<noteq> None) \<longrightarrow>
      (set_new_threshold env a =
         Return () (emit (ShowWarning ''Invalid Input''
                      ''Please enter a whole number between 20 and 100.'') a) \<or>
       set_new_threshold env a =
         Return () (emit (ShowError ''Error''
                      ''Cannot set threshold because battery path is not defined.'') a)) \<and>
      run_commands (events (state_of (set_new_threshold env a))) = run_commands (events a))"
proof (cases "validate_input env (entry_text a)")
  case (Inl e)
  from set_new_threshold_invalid [OF Inl] show ?thesis
    by (simp add: emit_def run_commands_append)
next
  case (Inr v)
  note v = validate_input_range [OF Inr]
  show ?thesis
  proof (cases "truthy (battery_path a)")
    case False
    from set_new_threshold_no_path [OF Inr False] show ?thesis
      by (simp add: emit_def run_commands_append no_path_error_def)
  next
    case True
    then have "battery_path a \<noteq> None" by (auto simp: truthy_def split: option.splits)
    with v show ?thesis by auto
  qed
qed

theorem write_only_when_valid_and_path_present_witness:
  "run_commands (events (state_of (set_new_threshold laptop (typed ''85'')))) \<noteq>
     run_commands (events (typed ''85'')) \<and>
   (\<exists>v. py_int (decimal_zeros laptop) (max_str_digits laptop) (entry_text (typed ''85'')) =
          Inr v \<and> 20 \<le> v \<and> v \<le> 100) \<and>
   battery_path (typed ''85'') \<noteq> None \<and>
   \<not> ((\<exists>v. py_int (decimal_zeros laptop) (max_str_digits laptop)
               (entry_text (typed ''abc'')) = Inr v \<and>
            20 \<le> v \<and> v \<le> 100) \<and> battery_path (typed ''abc'') \<noteq> None) \<and>
   (set_new_threshold laptop (typed ''abc'') =
      Return () (emit (ShowWarning ''Invalid Input''
                   ''Please enter a whole number between 20 and 100.'') (typed ''abc'')) \<or>
    set_new_threshold laptop (typed ''abc'') =
      Return () (emit (ShowError ''Error''
                   ''Cannot set threshold because battery path is not defined.'') (typed ''abc''))) \<and>
   run_commands (events (state_of (set_new_threshold laptop (typed ''abc'')))) =
     run_commands (events (typed ''abc''))"
proof -
  have v: "validate_input laptop (entry_text (typed ''85'')) = Inr 85"
    by (simp add: typed_def validate_85)
  have p: "battery_path (typed ''85'') = Some BAT0"
    by (simp add: typed_def ready_app_def)
  have b: "BAT0 \<noteq> []" by (simp add: BAT0_def)
  from set_new_threshold_runs [OF v p b]
  have r: "run_commands (events (state_of (set_new_threshold laptop (typed ''85'')))) \<noteq>
     run_commands (events (typed ''85''))"
    by (auto simp: run_commands_append)
  have n: "\<not> ((\<exists>v. py_int (decimal_zeros laptop) (max_str_digits laptop)
               (entry_text (typed ''abc'')) = Inr v \<and>
            20 \<le> v \<and> v \<le> 100) \<and> battery_path (typed ''abc'') \<noteq> None)"
    by (simp add: typed_def laptop_def py_int_abc)
  from r n show ?thesis
    using write_only_when_valid_and_path_present [of laptop "typed ''85''"]
      write_only_when_valid_and_path_present [of laptop "typed ''abc''"]
    by blast
qed

section \<open>Startup without a control file\<close>

lemma system_calls_append: "system_calls (xs @ ys) = system_calls xs @ system_calls ys"
  by (induction xs rule: system_calls.induct) auto

lemma quits_append: "quits (xs @ ys) = quits xs + quits ys"
  by (induction xs rule: quits.induct) auto

lemma set_new_threshold_returns: "\<exists>a'. set_new_threshold env a = Return () a'"
proof (cases "validate_input env (entry_text a)")
  case (Inl e)
  from set_new_threshold_invalid [OF Inl] show ?thesis by blast
next
  case (Inr v)
  show ?thesis
  proof (cases "truthy (battery_path a)")
    case False
    from set_new_threshold_no_path [OF Inr False] show ?thesis by blast
  next
    case True
    then obtain p where p: "battery_path a = Some p" "p \<noteq> []"
      by (auto simp: truthy_def split: option.splits)
    show ?thesis
    proof (cases "subprocess_run env (command v p)")
      case (Inl e)
      from set_new_threshold_failure [OF Inr p Inl] show ?thesis by blast
    next
      case r: (Inr u)
      from set_new_threshold_success [OF Inr p r] load_current_threshold_returns
      show ?thesis by metis
    qed
  qed
qed

lemma quits_load:
  "quits (events (state_of (load_current_threshold env a))) = quits (events a)"
  by (auto simp: load_current_threshold_def read_and_show_def Let_def config_label_def emit_def
      quits_append split: option.splits sum.splits)

lemma quits_set:
  "quits (events (state_of (set_new_threshold env a))) = quits (events a)"
proof (cases "validate_input env (entry_text a)")
  case (Inl e)
  from set_new_threshold_invalid [OF Inl] show ?thesis by (simp add: emit_def quits_append)
next
  case (Inr v)
  show ?thesis
  proof (cases "truthy (battery_path a)")
    case False
    from set_new_threshold_no_path [OF Inr False] show ?thesis
      by (simp add: emit_def quits_append no_path_error_def)
  next
    case True
    then obtain p where p: "battery_path a = Some p" "p \<noteq> []"
      by (auto simp: truthy_def split: option.splits)
    show ?thesis
    proof (cases "subprocess_run env (command v p)")
      case (Inl e)
      from set_new_threshold_failure [OF Inr p Inl] show ?thesis
        by (auto simp: emit_def quits_append)
    next
      case r: (Inr u)
      from set_new_threshold_success [OF Inr p r] show ?thesis
        by (simp add: quits_load) (simp add: emit_def quits_append)
    qed
  qed
qed

lemma set_new_threshold_without_path:
  assumes "battery_path a = None"
  shows "set_new_threshold env a =
           Return () (emit (ShowWarning ''Invalid Input''
                        ''Please enter a whole number between 20 and 100.'') a) \<or>
         set_new_threshold env a = Return () (emit no_path_error a)"
proof (cases "validate_input env (entry_text a)")
  case (Inl e)
  from set_new_threshold_invalid [OF Inl] show ?thesis by blast
next
  case (Inr v)
  from assms have "\<not> truthy (battery_path a)" by (simp add: truthy_def)
  from set_new_threshold_no_path [OF Inr this] show ?thesis by blast
qed

lemma mainloop_without_path:
  "battery_path a = None \<Longrightarrow>
     battery_path (mainloop cs a) = None \<and>
     system_calls (events (mainloop cs a)) = system_calls (events a) \<and>
     label_text (mainloop cs a) = label_text a \<and>
     length (events (mainloop cs a)) = length (events a) + length cs"
proof (induction cs arbitrary: a)
  case Nil
  then show ?case by simp
next
  case (Cons c cs)
  obtain env t where c: "c = (env, t)" by (cases c)
  let ?b = "a\<lparr>entry_text := t\<rparr>"
  let ?n = "state_of (set_new_threshold env ?b)"
  from Cons.prems have b: "battery_path ?b = None" by simp
  from set_new_threshold_without_path [OF b, of env] Cons.prems
  have n: "battery_path ?n = None \<and> system_calls (events ?n) = system_calls (events a) \<and>
      label_text ?n = label_text a \<and> length (events ?n) = Suc (length (events a))"
    by (auto simp: emit_def system_calls_append no_path_error_def)
  have q: "quits (events ?n) = quits (events ?b)" by (rule quits_set)
  from n q Cons.IH [of ?n] show ?case by (simp add: c)
qed

lemma Application_init_no_match:
  assumes "glob env CHARGE_THRESHOLD_FILE_PATH = Inr []"
  shows "Application_init env =
           Return ()
             \<lparr>battery_path = None, label_text = ''Current value: Not Found'', entry_text = [],
              events = [GlobCall CHARGE_THRESHOLD_FILE_PATH, ShowError ''Error'' not_found_message,
                        Quit, CreateWidgets, LabelConfig ''Current value: Not Found'']\<rparr>"
  using assms
  by (simp add: Application_init_def find_battery_path_def load_current_threshold_def
      create_widgets_def config_label_def emit_def new_app_def)

text \<open>
  When the glob yields no match, the loop handles every click of the session: each press
  of the button ends in one dialog, and no call of \<^verbatim>\<open>os.path.exists\<close>, \<^verbatim>\<open>open\<close> or
  \<^verbatim>\<open>subprocess.run\<close> is made.
\<close>

lemma main_block_no_match:
  assumes "glob env CHARGE_THRESHOLD_FILE_PATH = Inr []"
  shows "system_calls (events (main_block env cs)) = [] \<and>
         battery_path (main_block env cs) = None \<and>
         label_text (main_block env cs) = ''Current value: Not Found'' \<and>
         length (events (main_block env cs)) = 5 + length cs"
proof -
  note i = Application_init_no_match [OF assms]
  let ?a0 = "state_of (Application_init env)"
  have "battery_path ?a0 = None" by (simp add: i)
  from mainloop_without_path [OF this, of cs] show ?thesis
    by (simp add: main_block_def i)
qed

text \<open>
  Claim C2. On a machine without the control file the glob yields no match:
  \<open>find_battery_path\<close> shows the error box that names the pattern and calls
  \<^verbatim>\<open>self.master.quit()\<close> (line 40). That call comes before \<^verbatim>\<open>app.mainloop()\<close>
  (line 150), so it ends nothing: the constructor goes on, creates the widgets and sets
  the label to \<^verbatim>\<open>Current value: Not Found\<close>, the window opens, and when the user then
  types \<^verbatim>\<open>85\<close> and presses the button, \<open>set_new_threshold\<close> runs and shows the error
  box \<^verbatim>\<open>Cannot set threshold because battery path is not defined.\<close> So the session
  does not end at the failure: the log of the whole session goes on after the call of
  \<^verbatim>\<open>quit\<close>.
\<close>

theorem quit_before_mainloop_does_not_end_session:
  "glob desktop CHARGE_THRESHOLD_FILE_PATH = Inr [] \<and>
   events (main_block desktop [(desktop, codes ''85'')]) =
     [GlobCall CHARGE_THRESHOLD_FILE_PATH,
      ShowError ''Error'' not_found_message,
      Quit,
      CreateWidgets,
      LabelConfig ''Current value: Not Found'',
      ShowError ''Error'' ''Cannot set threshold because battery path is not defined.'']"
proof -
  have g: "glob desktop CHARGE_THRESHOLD_FILE_PATH = Inr []"
    by (simp add: desktop_def)
  have v: "validate_input desktop (codes ''85'') = Inr 85"
    by (simp add: validate_input_def desktop_def laptop_def py_int_85)
  have "set_new_threshold desktop
          (\<lparr>battery_path = None, label_text = ''Current value: Not Found'', entry_text = [],
            events = [GlobCall CHARGE_THRESHOLD_FILE_PATH, ShowError ''Error'' not_found_message,
                      Quit, CreateWidgets, LabelConfig ''Current value: Not Found'']\<rparr>
           \<lparr>entry_text := codes ''85''\<rparr>) =
        Return ()
          \<lparr>battery_path = None, label_text = ''Current value: Not Found'',
           entry_text = codes ''85'',
           events = [GlobCall CHARGE_THRESHOLD_FILE_PATH, ShowError ''Error'' not_found_message,
                     Quit, CreateWidgets, LabelConfig ''Current value: Not Found'',
                     no_path_error]\<rparr>"
    by (simp add: set_new_threshold_def v emit_def)
  then show ?thesis
    using g by (simp add: main_block_def Application_init_no_match [OF g] no_path_error_def)
qed

section \<open>Validation of the input\<close>

subsection \<open>The scan of digits and underscores\<close>

lemma not_digit_underscore [simp]: "\<not> is_digit (CHR ''_'')"
  by (simp add: is_digit_def)

lemma scan_digits_eq:
  "scan_digits prev n s =
     (if double_underscore (prev # takeWhile literal_char s) then None
      else Some (last (prev # takeWhile literal_char s),
                 n + length (filter is_digit (takeWhile literal_char s)),
                 dropWhile literal_char s))"
proof (induction s arbitrary: prev n)
  case Nil
  then show ?case by simp
next
  case (Cons c cs)
  show ?case
  proof (cases "is_digit c")
    case True
    then have u: "c \<noteq> CHR ''_''" by auto
    from True have l: "literal_char c" by (simp add: literal_char_def)
    from True u l Cons.IH [of c "Suc n"] show ?thesis
      by simp
  next
    case False
    show ?thesis
    proof (cases "c = CHR ''_''")
      case True
      then have l: "literal_char c" by (simp add: literal_char_def)
      from False True l Cons.IH [of c n] show ?thesis
        by simp
    next
      case n: False
      with False have l: "\<not> literal_char c" by (simp add: literal_char_def)
      from False n l show ?thesis by simp
    qed
  qed
qed

lemma grouped_digits_iff:
  "grouped_digits b \<longleftrightarrow>
     b \<noteq> [] \<and> list_all literal_char b \<and> hd b \<noteq> CHR ''_'' \<and> last b \<noteq> CHR ''_'' \<and>
     \<not> double_underscore b"
proof (induction b rule: grouped_digits.induct)
  case 1
  then show ?case by simp
next
  case (2 c)
  then show ?case by (auto simp: literal_char_def)
next
  case (3 c d cs)
  show ?case
  proof (cases "d = CHR ''_''")
    case True
    with 3 show ?thesis
      by (cases cs) (auto simp: literal_char_def)
  next
    case False
    with 3 show ?thesis
      by (auto simp: literal_char_def)
  qed
qed

lemma double_underscore_NUL: "double_underscore (CHR 0x00 # b) = double_underscore b"
  by (cases b) auto

lemma long_from_string_base_iff:
  "long_from_string_base lim s2 = Inr v \<longleftrightarrow>
     grouped_digits (takeWhile literal_char s2) \<and>
     list_all Py_ISSPACE (dropWhile literal_char s2) \<and>
     \<not> (640 < length (filter is_digit (takeWhile literal_char s2)) \<and> 0 < lim \<and>
        lim < length (filter is_digit (takeWhile literal_char s2))) \<and>
     v = decimal_value (takeWhile literal_char s2)"
proof -
  define body where "body = takeWhile literal_char s2"
  define rest where "rest = dropWhile literal_char s2"
  have split: "s2 = body @ rest" by (simp add: body_def rest_def)
  have len: "length rest = length s2 \<longleftrightarrow> body = []"
    using split by auto
  have tk: "take (length s2 - length rest) s2 = body"
    using split by simp
  have all: "list_all literal_char body"
    by (simp add: body_def list_all_takeWhile)
  have start: "(case s2 of [] \<Rightarrow> False | c # _ \<Rightarrow> c = CHR ''_'') \<longleftrightarrow> body \<noteq> [] \<and> hd body = CHR ''_''"
    by (cases s2) (auto simp: body_def literal_char_def)
  have sp: "dropWhile Py_ISSPACE rest \<noteq> [] \<longleftrightarrow> \<not> list_all Py_ISSPACE rest"
    by (auto simp: list_all_iff dropWhile_eq_Nil_conv)
  have lst: "last (CHR 0x00 # body) = CHR ''_'' \<longleftrightarrow> body \<noteq> [] \<and> last body = CHR ''_''"
    by simp
  show ?thesis
    unfolding long_from_string_base_def scan_digits_eq grouped_digits_iff double_underscore_NUL
      body_def [symmetric] rest_def [symmetric]
    using len tk all start sp lst
    by (auto simp del: last.simps)
qed

lemma space_not_literal: "Py_ISSPACE c \<Longrightarrow> \<not> literal_char c"
  by (auto simp: Py_ISSPACE_def literal_char_def is_digit_def)

lemma digit_not_space: "is_digit c \<Longrightarrow> \<not> Py_ISSPACE c \<and> c \<noteq> CHR ''+'' \<and> c \<noteq> CHR ''-''"
  by (auto simp: Py_ISSPACE_def is_digit_def)

lemma sign_not_space: "\<not> Py_ISSPACE (CHR ''+'') \<and> \<not> Py_ISSPACE (CHR ''-'')"
  by (simp add: Py_ISSPACE_def)

lemma takeWhile_none: "list_all Q xs \<Longrightarrow> (\<And>c. Q c \<Longrightarrow> \<not> P c) \<Longrightarrow> takeWhile P xs = []"
  by (cases xs) auto

lemma dropWhile_none: "list_all Q xs \<Longrightarrow> (\<And>c. Q c \<Longrightarrow> \<not> P c) \<Longrightarrow> dropWhile P xs = xs"
  by (cases xs) auto

lemma grouped_digits_start:
  "grouped_digits b \<Longrightarrow> \<exists>c cs. b = c # cs \<and> is_digit c"
  by (cases b rule: grouped_digits.cases) auto

lemma body_then_spaces:
  assumes "grouped_digits body" and "list_all Py_ISSPACE post"
  shows "takeWhile literal_char (body @ post) = body"
    and "dropWhile literal_char (body @ post) = post"
proof -
  from assms(1) have all: "\<And>c. c \<in> set body \<Longrightarrow> literal_char c"
    by (simp add: grouped_digits_iff list_all_iff)
  have t: "takeWhile literal_char post = []"
    using assms(2) space_not_literal by (rule takeWhile_none)
  have d: "dropWhile literal_char post = post"
    using assms(2) space_not_literal by (rule dropWhile_none)
  show "takeWhile literal_char (body @ post) = body"
    using all t by (simp add: takeWhile_append2)
  show "dropWhile literal_char (body @ post) = post"
    using all d by (simp add: dropWhile_append2)
qed

lemma PyLong_FromString_accepts:
  assumes pre: "list_all Py_ISSPACE pre" and post: "list_all Py_ISSPACE post"
    and sign: "sign = [] \<or> sign = ''+'' \<or> sign = ''-''"
    and body: "grouped_digits body"
    and lim: "\<not> (640 < length (filter is_digit body) \<and> 0 < lim \<and>
                 lim < length (filter is_digit body))"
  shows "PyLong_FromString lim (pre @ sign @ body @ post) =
           Inr (if sign = ''-'' then - decimal_value body else decimal_value body)"
proof -
  obtain c cs where b: "body = c # cs" and c: "is_digit c"
    using grouped_digits_start [OF body] by blast
  have base: "long_from_string_base lim (body @ post) = Inr (decimal_value body)"
    using body post lim by (simp add: long_from_string_base_iff body_then_spaces)
  have first: "\<not> Py_ISSPACE (hd (sign @ body @ post))"
    using sign b c digit_not_space sign_not_space by auto
  have ne: "sign @ body @ post \<noteq> []" using b by simp
  have "dropWhile Py_ISSPACE (pre @ sign @ body @ post) = dropWhile Py_ISSPACE (sign @ body @ post)"
    using pre by (simp add: dropWhile_append2 list_all_iff)
  also have "\<dots> = sign @ body @ post"
    using first ne by (cases "sign @ body @ post") auto
  finally have s1: "dropWhile Py_ISSPACE (pre @ sign @ body @ post) = sign @ body @ post" .
  from sign show ?thesis
  proof (elim disjE)
    assume "sign = []"
    with s1 b c base digit_not_space [OF c] show ?thesis
      by (simp add: PyLong_FromString_def)
  next
    assume "sign = ''+''"
    with s1 base show ?thesis
      by (simp add: PyLong_FromString_def)
  next
    assume "sign = ''-''"
    with s1 base show ?thesis
      by (simp add: PyLong_FromString_def)
  qed
qed

lemma PyLong_FromString_shape:
  assumes "PyLong_FromString lim t = Inr v"
  shows "\<exists>pre sign body post.
           t = pre @ sign @ body @ post \<and>
           list_all Py_ISSPACE pre \<and> list_all Py_ISSPACE post \<and>
           (sign = [] \<or> sign = ''+'' \<or> sign = ''-'') \<and>
           grouped_digits body \<and>
           \<not> (640 < length (filter is_digit body) \<and> 0 < lim \<and>
              lim < length (filter is_digit body)) \<and>
           v = (if sign = ''-'' then - decimal_value body else decimal_value body)"
proof -
  define pre where "pre = takeWhile Py_ISSPACE t"
  define s1 where "s1 = dropWhile Py_ISSPACE t"
  define sign where
    "sign = (case s1 of [] \<Rightarrow> [] | c # _ \<Rightarrow> if c = CHR ''+'' \<or> c = CHR ''-'' then [c] else [])"
  define s2 where
    "s2 = (case s1 of [] \<Rightarrow> [] | c # r \<Rightarrow> if c = CHR ''+'' \<or> c = CHR ''-'' then r else s1)"
  define body where "body = takeWhile literal_char s2"
  define post where "post = dropWhile literal_char s2"
  have t: "t = pre @ s1" by (simp add: pre_def s1_def)
  have s: "s1 = sign @ s2" by (cases s1) (auto simp: sign_def s2_def)
  have b: "s2 = body @ post" by (simp add: body_def post_def)
  have sg: "sign = [] \<or> sign = ''+'' \<or> sign = ''-''"
    by (cases s1) (auto simp: sign_def)
  have neg: "(case s1 of [] \<Rightarrow> False | c # _ \<Rightarrow> c = CHR ''-'') \<longleftrightarrow> sign = ''-''"
    by (cases s1) (auto simp: sign_def)
  from assms obtain m where m: "long_from_string_base lim s2 = Inr m"
    and v: "v = (if sign = ''-'' then - m else m)"
    by (auto simp: PyLong_FromString_def s1_def [symmetric] s2_def [symmetric] neg Let_def
        split: sum.splits)
  from m have "grouped_digits body \<and> list_all Py_ISSPACE post \<and>
     \<not> (640 < length (filter is_digit body) \<and> 0 < lim \<and> lim < length (filter is_digit body)) \<and>
     m = decimal_value body"
    by (simp add: long_from_string_base_iff body_def post_def)
  moreover have "list_all Py_ISSPACE pre" by (simp add: pre_def list_all_takeWhile)
  moreover have "t = pre @ sign @ body @ post" using t s b by simp
  ultimately show ?thesis using sg v by blast
qed

subsection \<open>The conversion to ASCII\<close>

lemma literal_text_ascii: "literal_text c \<Longrightarrow> of_char c < (127::nat) \<and> c \<noteq> CHR ''?''"
  by (auto simp: literal_text_def Py_ISSPACE_def literal_char_def is_digit_def)

lemma decimal_in_less: "decimal_in zeros c = Some d \<Longrightarrow> d < 10"
  by (induction zeros) (auto split: if_splits)

lemma TODECIMAL_less: "Py_UNICODE_TODECIMAL zeros c = Some d \<Longrightarrow> d < 10"
  by (auto simp: Py_UNICODE_TODECIMAL_def dest: decimal_in_less split: if_splits)

lemma TODECIMAL_ascii:
  "c < 128 \<Longrightarrow> Py_UNICODE_TODECIMAL zeros c = (if 48 \<le> c \<and> c \<le> 57 then Some (c - 48) else None)"
  by (simp add: Py_UNICODE_TODECIMAL_def)

lemma transform_chars_map:
  "list_all (convertible zeros) s \<Longrightarrow> transform_chars zeros s = map (to_ascii zeros) s"
  by (induction s) (auto simp: convertible_def to_ascii_def split: option.splits)

lemma convertible_ascii:
  "convertible zeros c \<Longrightarrow> c < 128 \<Longrightarrow> to_ascii zeros c = char_of c"
  by (auto simp: convertible_def to_ascii_def unicode_isspace_def TODECIMAL_ascii
      split: if_splits)

lemma Transform_map:
  assumes "list_all (convertible zeros) s"
  shows "TransformDecimalAndSpaceToASCII zeros s = map (to_ascii zeros) s"
proof (cases "list_all (\<lambda>c. c < 128) s")
  case True
  with assms have "map (to_ascii zeros) s = map char_of s"
    by (induction s) (auto simp: convertible_ascii)
  with True show ?thesis by (simp add: TransformDecimalAndSpaceToASCII_def)
next
  case False
  with assms show ?thesis
    by (simp add: TransformDecimalAndSpaceToASCII_def transform_chars_map)
qed

lemma transform_chars_text:
  "list_all literal_text (transform_chars zeros s) \<Longrightarrow> list_all (convertible zeros) s"
proof (induction s)
  case Nil
  then show ?case by simp
next
  case (Cons c cs)
  show ?case
  proof (cases "convertible zeros c")
    case True
    with Cons show ?thesis
      by (auto simp: convertible_def split: if_splits option.splits)
  next
    case False
    then have "transform_chars zeros (c # cs) = ''?''"
      by (simp add: convertible_def)
    with Cons.prems literal_text_ascii [of "CHR ''?''"] show ?thesis by simp
  qed
qed

lemma Transform_text:
  assumes "list_all literal_text (TransformDecimalAndSpaceToASCII zeros s)"
  shows "list_all (convertible zeros) s"
proof (cases "list_all (\<lambda>c. c < 128) s")
  case True
  with assms have t: "list_all literal_text (map char_of s)"
    by (simp add: TransformDecimalAndSpaceToASCII_def)
  have "convertible zeros c" if c: "c \<in> set s" for c
  proof -
    from t c have "literal_text (char_of c)" by (simp add: list_all_iff)
    from literal_text_ascii [OF this] have "c mod 256 < 127" by (simp add: of_char_of)
    moreover from True c have "c < 128" by (simp add: list_all_iff)
    ultimately show ?thesis by (simp add: convertible_def)
  qed
  then show ?thesis by (simp add: list_all_iff)
next
  case False
  with assms show ?thesis
    by (simp add: TransformDecimalAndSpaceToASCII_def transform_chars_text)
qed

text \<open>What a converted code point is to the parser.\<close>

lemma to_ascii_code:
  assumes "convertible zeros c"
  shows "(of_char (to_ascii zeros c) :: nat) =
           (if c < 127 then c
            else if unicode_isspace c then 32
            else 48 + the (Py_UNICODE_TODECIMAL zeros c))"
proof (cases "c < 127")
  case True
  then show ?thesis by (simp add: to_ascii_def of_char_of)
next
  case False
  show ?thesis
  proof (cases "unicode_isspace c")
    case True
    with False show ?thesis by (simp add: to_ascii_def)
  next
    case sp: False
    with False assms obtain d where d: "Py_UNICODE_TODECIMAL zeros c = Some d"
      by (auto simp: convertible_def)
    from TODECIMAL_less [OF d] have "d < 10" .
    with False sp d show ?thesis by (simp add: to_ascii_def of_char_of)
  qed
qed

lemma to_ascii_digit_code:
  assumes "convertible zeros c"
  shows "literal_digit zeros c = Some d \<longleftrightarrow> (of_char (to_ascii zeros c) :: nat) = 48 + d \<and> d < 10"
proof (cases "c < 127")
  case True
  then show ?thesis
    by (auto simp: to_ascii_def of_char_of literal_digit_def unicode_isspace_def TODECIMAL_ascii)
next
  case False
  show ?thesis
  proof (cases "unicode_isspace c")
    case True
    with False show ?thesis by (simp add: to_ascii_def literal_digit_def)
  next
    case sp: False
    with False assms obtain e where e: "Py_UNICODE_TODECIMAL zeros c = Some e"
      by (auto simp: convertible_def)
    from TODECIMAL_less [OF e] have "e < 10" .
    with False sp e show ?thesis by (auto simp: to_ascii_def of_char_of literal_digit_def)
  qed
qed

lemma to_ascii_is_digit:
  assumes "convertible zeros c"
  shows "is_digit (to_ascii zeros c) \<longleftrightarrow> literal_digit zeros c \<noteq> None"
proof
  assume "is_digit (to_ascii zeros c)"
  then have "(of_char (to_ascii zeros c) :: nat) = 48 + (of_char (to_ascii zeros c) - 48) \<and>
      (of_char (to_ascii zeros c) :: nat) - 48 < 10"
    by (auto simp: is_digit_def)
  with to_ascii_digit_code [OF assms, of "of_char (to_ascii zeros c) - 48"]
  show "literal_digit zeros c \<noteq> None" by simp
next
  assume "literal_digit zeros c \<noteq> None"
  then obtain d where "literal_digit zeros c = Some d" by auto
  with to_ascii_digit_code [OF assms, of d] show "is_digit (to_ascii zeros c)"
    by (simp add: is_digit_def)
qed

lemma to_ascii_digit_value:
  assumes "convertible zeros c" and "literal_digit zeros c = Some d"
  shows "digit_value (to_ascii zeros c) = int d"
  using to_ascii_digit_code [OF assms(1), of d] assms(2) by (simp add: digit_value_def)

lemma to_ascii_space:
  assumes "convertible zeros c"
  shows "Py_ISSPACE (to_ascii zeros c) \<longleftrightarrow> literal_space c"
proof (cases "c < 127 \<or> unicode_isspace c")
  case True
  then show ?thesis
    by (auto simp: Py_ISSPACE_def to_ascii_code [OF assms] literal_space_def unicode_isspace_def)
next
  case False
  with assms obtain d where d: "Py_UNICODE_TODECIMAL zeros c = Some d"
    by (auto simp: convertible_def)
  from TODECIMAL_less [OF d] have "d < 10" .
  with False d show ?thesis
    by (auto simp: Py_ISSPACE_def to_ascii_code [OF assms] literal_space_def)
qed

lemma to_ascii_eq_ascii:
  assumes "convertible zeros c" and "x < 127" and "x \<noteq> 32" and "\<not> (48 \<le> x \<and> x \<le> 57)"
  shows "to_ascii zeros c = char_of x \<longleftrightarrow> c = x"
proof
  assume "c = x"
  with assms(2) show "to_ascii zeros c = char_of x" by (simp add: to_ascii_def)
next
  assume e: "to_ascii zeros c = char_of x"
  have "(of_char (to_ascii zeros c) :: nat) = x"
    unfolding e using assms(2) by (simp add: of_char_of)
  then have *: "(if c < 127 then c
            else if unicode_isspace c then 32
            else 48 + the (Py_UNICODE_TODECIMAL zeros c)) = x"
    by (simp add: to_ascii_code [OF assms(1)])
  show "c = x"
  proof (cases "c < 127 \<or> unicode_isspace c")
    case True
    with * assms(3) show ?thesis by (auto split: if_splits)
  next
    case False
    with assms(1) obtain d where d: "Py_UNICODE_TODECIMAL zeros c = Some d"
      by (auto simp: convertible_def)
    from TODECIMAL_less [OF d] have "d < 10" .
    with False d * assms(4) show ?thesis by auto
  qed
qed

lemma ascii_chars:
  "char_of (43::nat) = CHR ''+''" "char_of (45::nat) = CHR ''-''" "char_of (95::nat) = CHR ''_''"
  by (simp_all add: char_of_eq_iff take_bit_eq_mod)

lemma to_ascii_plus: "convertible zeros c \<Longrightarrow> to_ascii zeros c = CHR ''+'' \<longleftrightarrow> c = 43"
  using to_ascii_eq_ascii [of zeros c 43] by (simp add: ascii_chars)

lemma to_ascii_minus: "convertible zeros c \<Longrightarrow> to_ascii zeros c = CHR ''-'' \<longleftrightarrow> c = 45"
  using to_ascii_eq_ascii [of zeros c 45] by (simp add: ascii_chars)

lemma to_ascii_underscore: "convertible zeros c \<Longrightarrow> to_ascii zeros c = CHR ''_'' \<longleftrightarrow> c = 95"
  using to_ascii_eq_ascii [of zeros c 95] by (simp add: ascii_chars)

lemma literal_space_convertible: "literal_space c \<Longrightarrow> convertible zeros c"
  by (simp add: literal_space_def convertible_def)

lemma literal_digit_convertible: "literal_digit zeros c \<noteq> None \<Longrightarrow> convertible zeros c"
  by (auto simp: literal_digit_def convertible_def split: if_splits)

lemma underscore_convertible: "convertible zeros 95 \<and> literal_digit zeros 95 = None"
  by (simp add: convertible_def literal_digit_def TODECIMAL_ascii)

subsection \<open>Literals of code points\<close>

lemma digit_groups_chars:
  "digit_groups zeros b \<Longrightarrow> list_all (\<lambda>c. literal_digit zeros c \<noteq> None \<or> c = 95) b"
  by (induction zeros b rule: digit_groups.induct) (auto split: if_splits)

lemma literal_chars_convertible:
  "list_all (\<lambda>c. literal_digit zeros c \<noteq> None \<or> c = 95) b \<Longrightarrow> list_all (convertible zeros) b"
  using literal_digit_convertible underscore_convertible by (auto simp: list_all_iff)

lemma grouped_digits_map:
  "list_all (convertible zeros) b \<Longrightarrow>
     grouped_digits (map (to_ascii zeros) b) \<longleftrightarrow> digit_groups zeros b"
proof (induction zeros b rule: digit_groups.induct)
  case (1 zeros)
  then show ?case by simp
next
  case (2 zeros c)
  then show ?case by (simp add: to_ascii_is_digit)
next
  case (3 zeros c d cs)
  then show ?case
    by (simp add: to_ascii_is_digit to_ascii_underscore)
qed

lemma filter_digits_map:
  "list_all (convertible zeros) b \<Longrightarrow>
     length (filter is_digit (map (to_ascii zeros) b)) = digit_count zeros b"
  by (induction b) (simp_all add: digit_count_def to_ascii_is_digit)

lemma foldl_value_map:
  "list_all (\<lambda>c. literal_digit zeros c \<noteq> None \<or> c = 95) b \<Longrightarrow>
     foldl (\<lambda>acc c. if c = CHR ''_'' then acc else acc * 10 + digit_value c) acc
       (map (to_ascii zeros) b) =
     foldl (\<lambda>acc c. case literal_digit zeros c of None \<Rightarrow> acc | Some d \<Rightarrow> acc * 10 + int d)
       acc b"
proof (induction b arbitrary: acc)
  case Nil
  then show ?case by simp
next
  case (Cons c cs)
  show ?case
  proof (cases "c = 95")
    case True
    with Cons underscore_convertible [of zeros] show ?thesis
      by (simp add: to_ascii_underscore)
  next
    case False
    with Cons.prems obtain d where d: "literal_digit zeros c = Some d" by auto
    then have conv: "convertible zeros c" by (simp add: literal_digit_convertible)
    from Cons False d conv show ?thesis
      by (simp add: to_ascii_underscore to_ascii_digit_value)
  qed
qed

lemma decimal_value_map:
  "digit_groups zeros b \<Longrightarrow> decimal_value (map (to_ascii zeros) b) = literal_value zeros b"
  using foldl_value_map [OF digit_groups_chars, of zeros b 0]
  by (simp add: decimal_value_def literal_value_def)

lemma sign_map:
  assumes "list_all (convertible zeros) sg"
  shows "(map (to_ascii zeros) sg = ''+'' \<longleftrightarrow> sg = codes ''+'') \<and>
         (map (to_ascii zeros) sg = ''-'' \<longleftrightarrow> sg = codes ''-'')"
  using assms by (cases sg) (auto simp: codes_def to_ascii_plus to_ascii_minus)

lemma spaces_map:
  "list_all (convertible zeros) p \<Longrightarrow>
     list_all Py_ISSPACE (map (to_ascii zeros) p) \<longleftrightarrow> list_all literal_space p"
  by (induction p) (simp_all add: to_ascii_space)

lemma grouped_digits_chars: "grouped_digits b \<Longrightarrow> list_all literal_char b"
  by (simp add: grouped_digits_iff)

lemma map_eq_append_split:
  "map f xs = ys @ zs \<Longrightarrow> \<exists>us vs. xs = us @ vs \<and> map f us = ys \<and> map f vs = zs"
  by (auto simp: map_eq_append_conv)

subsection \<open>The texts that int accepts\<close>

lemma py_int_accepts:
  assumes pre: "list_all literal_space pre" and post: "list_all literal_space post"
    and sign: "sign = [] \<or> sign = codes ''+'' \<or> sign = codes ''-''"
    and body: "digit_groups zeros body"
    and lim: "\<not> (640 < digit_count zeros body \<and> 0 < lim \<and> lim < digit_count zeros body)"
  shows "py_int zeros lim (pre @ sign @ body @ post) =
           Inr (if sign = codes ''-'' then - literal_value zeros body
                else literal_value zeros body)"
proof -
  let ?f = "to_ascii zeros"
  have b: "list_all (convertible zeros) body"
    by (rule literal_chars_convertible [OF digit_groups_chars [OF body]])
  have s: "list_all (convertible zeros) sign"
    using sign by (auto simp: codes_def convertible_def)
  have p: "list_all (convertible zeros) pre"
    using pre literal_space_convertible by (auto simp: list_all_iff)
  have q: "list_all (convertible zeros) post"
    using post literal_space_convertible by (auto simp: list_all_iff)
  from b s p q have "list_all (convertible zeros) (pre @ sign @ body @ post)" by simp
  then have t: "TransformDecimalAndSpaceToASCII zeros (pre @ sign @ body @ post) =
      map ?f pre @ map ?f sign @ map ?f body @ map ?f post"
    by (simp add: Transform_map)
  have sg: "map ?f sign = [] \<or> map ?f sign = ''+'' \<or> map ?f sign = ''-''"
    using sign sign_map [OF s] by auto
  have neg: "map ?f sign = ''-'' \<longleftrightarrow> sign = codes ''-''"
    using sign_map [OF s] by simp
  have "PyLong_FromString lim (map ?f pre @ map ?f sign @ map ?f body @ map ?f post) =
      Inr (if map ?f sign = ''-'' then - decimal_value (map ?f body)
           else decimal_value (map ?f body))"
  proof (rule PyLong_FromString_accepts)
    show "list_all Py_ISSPACE (map ?f pre)" using pre by (simp add: spaces_map [OF p])
    show "list_all Py_ISSPACE (map ?f post)" using post by (simp add: spaces_map [OF q])
    show "map ?f sign = [] \<or> map ?f sign = ''+'' \<or> map ?f sign = ''-''" by (rule sg)
    show "grouped_digits (map ?f body)" using body by (simp add: grouped_digits_map [OF b])
    show "\<not> (640 < length (filter is_digit (map ?f body)) \<and> 0 < lim \<and>
             lim < length (filter is_digit (map ?f body)))"
      unfolding filter_digits_map [OF b] by (rule lim)
  qed
  then show ?thesis
    by (simp add: py_int_def t neg decimal_value_map [OF body])
qed

lemma py_int_shape:
  assumes "py_int zeros lim s = Inr v"
  shows "\<exists>pre sign body post.
           s = pre @ sign @ body @ post \<and>
           list_all literal_space pre \<and> list_all literal_space post \<and>
           (sign = [] \<or> sign = codes ''+'' \<or> sign = codes ''-'') \<and>
           digit_groups zeros body \<and>
           \<not> (640 < digit_count zeros body \<and> 0 < lim \<and> lim < digit_count zeros body) \<and>
           v = (if sign = codes ''-'' then - literal_value zeros body
                else literal_value zeros body)"
proof -
  let ?f = "to_ascii zeros"
  let ?t = "TransformDecimalAndSpaceToASCII zeros s"
  from assms have "PyLong_FromString lim ?t = Inr v" by (simp add: py_int_def)
  from PyLong_FromString_shape [OF this]
  obtain pre' sign' body' post' where t: "?t = pre' @ sign' @ body' @ post'"
    and pre': "list_all Py_ISSPACE pre'" and post': "list_all Py_ISSPACE post'"
    and sign': "sign' = [] \<or> sign' = ''+'' \<or> sign' = ''-''"
    and body': "grouped_digits body'"
    and lim': "\<not> (640 < length (filter is_digit body') \<and> 0 < lim \<and>
                 lim < length (filter is_digit body'))"
    and v: "v = (if sign' = ''-'' then - decimal_value body' else decimal_value body')"
    by blast
  have "list_all literal_text ?t"
    using pre' post' sign' grouped_digits_chars [OF body']
    by (auto simp: t list_all_iff literal_text_def)
  then have conv: "list_all (convertible zeros) s" by (rule Transform_text)
  then have "map ?f s = pre' @ sign' @ body' @ post'"
    using t by (simp add: Transform_map)
  from map_eq_append_split [OF this] obtain pre r1 where s1: "s = pre @ r1"
    and p: "map ?f pre = pre'" and r1: "map ?f r1 = sign' @ body' @ post'"
    by blast
  from map_eq_append_split [OF r1] obtain sign r2 where s2: "r1 = sign @ r2"
    and sg: "map ?f sign = sign'" and r2: "map ?f r2 = body' @ post'"
    by blast
  from map_eq_append_split [OF r2] obtain body post where s3: "r2 = body @ post"
    and b: "map ?f body = body'" and q: "map ?f post = post'"
    by blast
  from conv have cp: "list_all (convertible zeros) pre" and cs: "list_all (convertible zeros) sign"
    and cb: "list_all (convertible zeros) body" and cq: "list_all (convertible zeros) post"
    by (simp_all add: s1 s2 s3)
  have 1: "list_all literal_space pre" using pre' p spaces_map [OF cp] by simp
  have 2: "list_all literal_space post" using post' q spaces_map [OF cq] by simp
  have 3: "sign = [] \<or> sign = codes ''+'' \<or> sign = codes ''-''"
    using sign' sg sign_map [OF cs] by auto
  have neg: "sign' = ''-'' \<longleftrightarrow> sign = codes ''-''"
    using sg sign_map [OF cs] by auto
  have 4: "digit_groups zeros body" using body' b grouped_digits_map [OF cb] by simp
  have 5: "\<not> (640 < digit_count zeros body \<and> 0 < lim \<and> lim < digit_count zeros body)"
    using lim' b filter_digits_map [OF cb] by simp
  have 6: "v = (if sign = codes ''-'' then - literal_value zeros body
                else literal_value zeros body)"
    using v b neg decimal_value_map [OF 4] by simp
  have "s = pre @ sign @ body @ post" by (simp add: s1 s2 s3)
  with 1 2 3 4 5 6 show ?thesis by blast
qed

lemma py_int_iff:
  "py_int zeros lim s = Inr v \<longleftrightarrow>
     (\<exists>pre sign body post.
        s = pre @ sign @ body @ post \<and>
        list_all literal_space pre \<and> list_all literal_space post \<and>
        (sign = [] \<or> sign = codes ''+'' \<or> sign = codes ''-'') \<and>
        digit_groups zeros body \<and>
        \<not> (640 < digit_count zeros body \<and> 0 < lim \<and> lim < digit_count zeros body) \<and>
        v = (if sign = codes ''-'' then - literal_value zeros body
             else literal_value zeros body))"
proof
  assume "py_int zeros lim s = Inr v"
  then show "\<exists>pre sign body post.
        s = pre @ sign @ body @ post \<and>
        list_all literal_space pre \<and> list_all literal_space post \<and>
        (sign = [] \<or> sign = codes ''+'' \<or> sign = codes ''-'') \<and>
        digit_groups zeros body \<and>
        \<not> (640 < digit_count zeros body \<and> 0 < lim \<and> lim < digit_count zeros body) \<and>
        v = (if sign = codes ''-'' then - literal_value zeros body
             else literal_value zeros body)"
    by (rule py_int_shape)
next
  assume "\<exists>pre sign body post.
        s = pre @ sign @ body @ post \<and>
        list_all literal_space pre \<and> list_all literal_space post \<and>
        (sign = [] \<or> sign = codes ''+'' \<or> sign = codes ''-'') \<and>
        digit_groups zeros body \<and>
        \<not> (640 < digit_count zeros body \<and> 0 < lim \<and> lim < digit_count zeros body) \<and>
        v = (if sign = codes ''-'' then - literal_value zeros body
             else literal_value zeros body)"
  then obtain pre sign body post where "s = pre @ sign @ body @ post"
    and "list_all literal_space pre" and "list_all literal_space post"
    and "sign = [] \<or> sign = codes ''+'' \<or> sign = codes ''-''"
    and "digit_groups zeros body"
    and "\<not> (640 < digit_count zeros body \<and> 0 < lim \<and> lim < digit_count zeros body)"
    and "v = (if sign = codes ''-'' then - literal_value zeros body
              else literal_value zeros body)"
    by blast
  then show "py_int zeros lim s = Inr v"
    using py_int_accepts [of pre post sign zeros body lim] by simp
qed

lemma validate_input_iff:
  "validate_input env s = Inr v \<longleftrightarrow>
     py_int (decimal_zeros env) (max_str_digits env) s = Inr v \<and> 20 \<le> v \<and> v \<le> 100"
  by (auto simp: validate_input_def split: sum.splits)

subsection \<open>The claim about validation\<close>

text \<open>
  Claim C1, as the code has it. The text of the entry is validated by \<^verbatim>\<open>int\<close> and
  the range check. For every text \<open>s\<close>, of any code points, validation succeeds with
  the value \<open>v\<close> if and only if \<open>s\<close> is, between optional whitespace, an optional sign
  \<^verbatim>\<open>+\<close> or \<^verbatim>\<open>-\<close> followed by decimal digits of any script with optional single
  underscores between digits, the number of digits is within the limit of the
  interpreter (where it has one, and above 640 digits only), \<open>v\<close> is the value of the
  digits with that sign, and \<open>20 \<le> v \<le> 100\<close>. Whenever validation does not succeed,
  \<open>set_new_threshold\<close> shows the warning \<^verbatim>\<open>Invalid Input\<close> and does nothing else, so
  no write is attempted. For instance, an ideographic space (U+3000), a plus sign, the
  fullwidth digits five and zero (U+FF15, U+FF10) with an underscore between them and a
  space are validated as 50, and the text \<^verbatim>\<open>abc\<close> is answered by the warning.
\<close>

theorem validation_accepts_integer_literals_in_range:
  "(validate_input env s = Inr v \<longleftrightarrow>
     (\<exists>pre sign body post.
        s = pre @ sign @ body @ post \<and>
        list_all literal_space pre \<and> list_all literal_space post \<and>
        (sign = [] \<or> sign = codes ''+'' \<or> sign = codes ''-'') \<and>
        digit_groups (decimal_zeros env) body \<and>
        \<not> (640 < digit_count (decimal_zeros env) body \<and> 0 < max_str_digits env \<and>
           max_str_digits env < digit_count (decimal_zeros env) body) \<and>
        v = (if sign = codes ''-'' then - literal_value (decimal_zeros env) body
             else literal_value (decimal_zeros env) body) \<and>
        20 \<le> v \<and> v \<le> 100)) \<and>
   ((\<forall>w. validate_input env (entry_text a) \<noteq> Inr w) \<longrightarrow>
      set_new_threshold env a =
        Return () (emit (ShowWarning ''Invalid Input''
                     ''Please enter a whole number between 20 and 100.'') a))"
proof -
  have "validate_input env s = Inr v \<longleftrightarrow>
     (\<exists>pre sign body post.
        s = pre @ sign @ body @ post \<and>
        list_all literal_space pre \<and> list_all literal_space post \<and>
        (sign = [] \<or> sign = codes ''+'' \<or> sign = codes ''-'') \<and>
        digit_groups (decimal_zeros env) body \<and>
        \<not> (640 < digit_count (decimal_zeros env) body \<and> 0 < max_str_digits env \<and>
           max_str_digits env < digit_count (decimal_zeros env) body) \<and>
        v = (if sign = codes ''-'' then - literal_value (decimal_zeros env) body
             else literal_value (decimal_zeros env) body) \<and>
        20 \<le> v \<and> v \<le> 100)"
    unfolding validate_input_iff py_int_iff by blast
  moreover have "set_new_threshold env a =
        Return () (emit (ShowWarning ''Invalid Input''
                     ''Please enter a whole number between 20 and 100.'') a)"
    if "\<forall>w. validate_input env (entry_text a) \<noteq> Inr w"
  proof (cases "validate_input env (entry_text a)")
    case (Inl e)
    then show ?thesis by (rule set_new_threshold_invalid)
  next
    case (Inr w)
    with that show ?thesis by blast
  qed
  ultimately show ?thesis by blast
qed

theorem validation_accepts_integer_literals_in_range_witness:
  "validate_input laptop [0x3000, 43, 0xFF15, 95, 0xFF10, 32] = Inr 50 \<and>
   (\<forall>w. validate_input laptop (entry_text (typed ''abc'')) \<noteq> Inr w) \<and>
   set_new_threshold laptop (typed ''abc'') =
     Return () (emit (ShowWarning ''Invalid Input''
                  ''Please enter a whole number between 20 and 100.'') (typed ''abc''))"
proof -
  have z: "decimal_zeros laptop = unicode_zeros" and m: "max_str_digits laptop = 4300"
    by (simp_all add: laptop_def)
  have d5: "literal_digit unicode_zeros 0xFF15 = Some 5"
    by (simp add: literal_digit_def unicode_isspace_def Py_UNICODE_TODECIMAL_def
        unicode_zeros_def)
  have d0: "literal_digit unicode_zeros 0xFF10 = Some 0"
    by (simp add: literal_digit_def unicode_isspace_def Py_UNICODE_TODECIMAL_def
        unicode_zeros_def)
  have u: "literal_digit unicode_zeros 95 = None"
    by (simp add: literal_digit_def unicode_isspace_def Py_UNICODE_TODECIMAL_def)
  have "[0x3000, 43, 0xFF15, 95, 0xFF10, 32] =
          [0x3000] @ codes ''+'' @ [0xFF15, 95, 0xFF10] @ [32] \<and>
        list_all literal_space [0x3000] \<and> list_all literal_space [32] \<and>
        (codes ''+'' = [] \<or> codes ''+'' = codes ''+'' \<or> codes ''+'' = codes ''-'') \<and>
        digit_groups (decimal_zeros laptop) [0xFF15, 95, 0xFF10] \<and>
        \<not> (640 < digit_count (decimal_zeros laptop) [0xFF15, 95, 0xFF10] \<and>
           0 < max_str_digits laptop \<and>
           max_str_digits laptop < digit_count (decimal_zeros laptop) [0xFF15, 95, 0xFF10]) \<and>
        (50::int) = (if codes ''+'' = codes ''-''
                     then - literal_value (decimal_zeros laptop) [0xFF15, 95, 0xFF10]
                     else literal_value (decimal_zeros laptop) [0xFF15, 95, 0xFF10]) \<and>
        20 \<le> (50::int) \<and> (50::int) \<le> 100"
    by (simp add: z m d5 d0 u codes_def literal_space_def unicode_isspace_def digit_count_def
        literal_value_def)
  then have ex: "\<exists>pre sign body post.
        [0x3000, 43, 0xFF15, 95, 0xFF10, 32] = pre @ sign @ body @ post \<and>
        list_all literal_space pre \<and> list_all literal_space post \<and>
        (sign = [] \<or> sign = codes ''+'' \<or> sign = codes ''-'') \<and>
        digit_groups (decimal_zeros laptop) body \<and>
        \<not> (640 < digit_count (decimal_zeros laptop) body \<and> 0 < max_str_digits laptop \<and>
           max_str_digits laptop < digit_count (decimal_zeros laptop) body) \<and>
        (50::int) = (if sign = codes ''-'' then - literal_value (decimal_zeros laptop) body
                     else literal_value (decimal_zeros laptop) body) \<and>
        20 \<le> (50::int) \<and> (50::int) \<le> 100"
    by blast
  have no: "\<forall>w. validate_input laptop (entry_text (typed ''abc'')) \<noteq> Inr w"
    by (simp add: typed_def validate_input_def laptop_def py_int_abc)
  from ex no show ?thesis
    using validation_accepts_integer_literals_in_range
      [of laptop "[0x3000, 43, 0xFF15, 95, 0xFF10, 32]" 50 "typed ''abc''"]
    by blast
qed

text \<open>
  Claim C1 as stated fails: the texts \<^verbatim>\<open>" 50"\<close>, \<^verbatim>\<open>"+50"\<close> and \<^verbatim>\<open>"5_0"\<close> do
  not match the pattern of the specification, yet each is validated as 50, and with the
  first of them in the entry the privileged command is run.
\<close>

theorem validation_accepts_more_than_the_pattern:
  "validate_input laptop (codes '' 50'') = Inr 50 \<and>
   \<not> spec_pattern (decimal_zeros laptop) (codes '' 50'') \<and>
   validate_input laptop (codes ''+50'') = Inr 50 \<and>
   \<not> spec_pattern (decimal_zeros laptop) (codes ''+50'') \<and>
   validate_input laptop (codes ''5_0'') = Inr 50 \<and>
   \<not> spec_pattern (decimal_zeros laptop) (codes ''5_0'') \<and>
   run_commands (events (state_of (set_new_threshold laptop (typed '' 50'')))) =
     [[''pkexec'', ''/bin/bash'', ''-c'',
       ''echo 50 > /sys/class/power_supply/BAT0/charge_control_end_threshold'']]"
proof -
  have v: "validate_input laptop (codes '' 50'') = Inr 50"
    by (simp add: validate_input_def laptop_def py_int_def Transform_codes
        PyLong_FromString_def long_from_string_base_def Py_ISSPACE_def is_digit_def
        decimal_value_def digit_value_def)
  have "validate_input laptop (codes ''+50'') = Inr 50"
    by (simp add: validate_input_def laptop_def py_int_def Transform_codes
        PyLong_FromString_def long_from_string_base_def Py_ISSPACE_def is_digit_def
        decimal_value_def digit_value_def)
  moreover have "validate_input laptop (codes ''5_0'') = Inr 50"
    by (simp add: validate_input_def laptop_def py_int_def Transform_codes
        PyLong_FromString_def long_from_string_base_def Py_ISSPACE_def is_digit_def
        decimal_value_def digit_value_def)
  moreover have "\<not> spec_pattern (decimal_zeros laptop) (codes '' 50'') \<and>
      \<not> spec_pattern (decimal_zeros laptop) (codes ''+50'') \<and>
      \<not> spec_pattern (decimal_zeros laptop) (codes ''5_0'')"
    by (simp add: spec_pattern_def codes_def literal_digit_def unicode_isspace_def
        Py_UNICODE_TODECIMAL_def)
  moreover have "run_commands (events (state_of (set_new_threshold laptop (typed '' 50'')))) =
     [[''pkexec'', ''/bin/bash'', ''-c'',
       ''echo 50 > /sys/class/power_supply/BAT0/charge_control_end_threshold'']]"
  proof -
    have e: "validate_input laptop (entry_text (typed '' 50'')) = Inr 50"
      by (simp add: typed_def v)
    have p: "battery_path (typed '' 50'') = Some BAT0"
      by (simp add: typed_def ready_app_def)
    have b: "BAT0 \<noteq> []" by (simp add: BAT0_def)
    have n: "events (typed '' 50'') = []"
      by (simp add: typed_def ready_app_def new_app_def)
    have "str_int 50 = ''50''" by (simp add: str_int_def str_nat.simps)
    then have "command 50 BAT0 = [''pkexec'', ''/bin/bash'', ''-c'',
       ''echo 50 > /sys/class/power_supply/BAT0/charge_control_end_threshold'']"
      by (simp add: command_def BAT0_def)
    with set_new_threshold_runs [OF e p b] n show ?thesis
      by (auto simp: run_commands_append)
  qed
  ultimately show ?thesis using v by blast
qed

end
